theory Spec2Isabelle
  imports
    Complex_Main
    "HOL-Library.Char_ord"
    "HOL-Library.List_Lexorder"
    "HOL-Library.Multiset"
    "HOL-Library.AList"
begin

section \<open>Python values, exceptions and messages\<close>

text \<open>
  The fragment of Python values that travels through the actor context and the profiling
  registry. Numbers (\<open>int\<close>, \<open>float\<close> without NaN, and \<open>bool\<close>, which Python treats as the
  integers 1 and 0 under \<open>==\<close> and \<open><\<close>) are \<open>PNum\<close>; a \<open>dict\<close> with string keys is \<open>PDict\<close>,
  its items in insertion order; \<open>PObject\<close> is an object of a user class (no mapping),
  told from others by its identity.
\<close>

type_synonym address = string
type_synonym uid = string
type_synonym message_id = nat
type_synonym task_id = string

record ActorRef =
  address :: address
  uid :: uid

datatype pyval =
    PNone
  | PNum rat
  | PStr string
  | PBytes string
  | PTuple "pyval list"
  | PDict "(string \<times> pyval) list"
  | PRef ActorRef
  | PObject nat

abbreviation PTrue :: pyval where "PTrue \<equiv> PNum 1"
abbreviation PFalse :: pyval where "PFalse \<equiv> PNum 0"

datatype exn =
    CancelledError
  | CannotCancelTask
  | ValueError string
  | TypeError
  | IndexError
  | KeyError
  | AttributeError
  | UnicodeDecodeError
  | RuntimeError string
  | RemoteError string

text \<open>
  The content of a Send or Tell message is a tuple that starts with the method name,
  \<open>content[0]\<close>. A call made through an actor reference has the shape
  \<open>(method_name, batch, args, kwargs)\<close>, but nothing checks the number of items before
  \<open>_CallStats.to_dict\<close> unpacks them.
\<close>

record content =
  method_name :: string
  rest_items :: "pyval list"

datatype ControlMessageType = get_config | stop | wait_pool_recovered

datatype message =
    HasActorMessage message_id ActorRef
  | DestroyActorMessage message_id ActorRef
  | ActorRefMessage message_id ActorRef
  | SendMessage message_id ActorRef content "task_id option"
  | TellMessage message_id ActorRef content
  | CancelMessage message_id address message_id
  | ControlMessage message_id address ControlMessageType pyval

fun message_id :: "message \<Rightarrow> message_id" where
  "message_id (HasActorMessage i _) = i"
| "message_id (DestroyActorMessage i _) = i"
| "message_id (ActorRefMessage i _) = i"
| "message_id (SendMessage i _ _ _) = i"
| "message_id (TellMessage i _ _) = i"
| "message_id (CancelMessage i _ _) = i"
| "message_id (ControlMessage i _ _ _) = i"

datatype reply = ResultMessage pyval | ErrorMessage exn

section \<open>The actor context (backends/context.py)\<close>

text \<open>
  A pending handle (\<open>asyncio.Future\<close>) is described by what awaiting it yields:
  \<open>shield_wait\<close> is how \<open>await asyncio.shield(future)\<close> ends (normally, with
  \<open>CancelledError\<close> when the awaiting task is cancelled, or with the exception the handle
  holds), and \<open>final_wait\<close> is how the later \<open>await future\<close> ends.
\<close>

record future =
  shield_wait :: "exn + unit"
  final_wait :: "exn + reply"

text \<open>
  The collaborators that are not part of the context: the transport caller
  (\<open>ActorCaller.call\<close> with \<open>wait=True\<close> and with \<open>wait=False\<close>), the in-process
  shortcut \<open>create_local_actor_ref\<close> and the debugging check \<open>detect_cycle_send\<close>.
  A destination is whatever Python value the code passes as the address.
\<close>

record env =
  caller_call :: "pyval \<Rightarrow> message \<Rightarrow> exn + reply"
  caller_future :: "pyval \<Rightarrow> message \<Rightarrow> exn + future"
  create_local_actor_ref :: "address \<Rightarrow> uid \<Rightarrow> ActorRef option"
  detect_cycle_send :: "message \<Rightarrow> bool \<Rightarrow> exn option"

text \<open>
  The effects of the context: every message handed to the transport, in order, and the
  supply of fresh message ids. Logging, and with it the \<open>debug_async_timeout\<close> scope of
  \<open>send\<close>, has no effect on results and is left out; \<open>create_actor\<close>, which no property
  below concerns, is not modelled. \<open>actor_ref\<close> is called with an actor reference, for
  which \<open>create_actor_ref\<close> returns a reference with the same address and uid.
\<close>

record world =
  sent :: "(pyval \<times> message) list"
  next_id :: message_id

type_synonym 'a io = "world \<Rightarrow> (exn + 'a) \<times> world"

definition returnE :: "'a \<Rightarrow> 'a io" where
  "returnE x = (\<lambda>w. (Inr x, w))"

definition raiseE :: "exn \<Rightarrow> 'a io" where
  "raiseE e = (\<lambda>w. (Inl e, w))"

definition bindE :: "'a io \<Rightarrow> ('a \<Rightarrow> 'b io) \<Rightarrow> 'b io" where
  "bindE m f = (\<lambda>w. case m w of (Inl e, w') \<Rightarrow> (Inl e, w') | (Inr x, w') \<Rightarrow> f x w')"

definition catchE :: "'a io \<Rightarrow> (exn \<Rightarrow> 'a io) \<Rightarrow> 'a io" where
  "catchE m h = (\<lambda>w. case m w of (Inl e, w') \<Rightarrow> h e w' | (Inr x, w') \<Rightarrow> (Inr x, w'))"

definition liftE :: "exn + 'a \<Rightarrow> 'a io" where
  "liftE r = (\<lambda>w. (r, w))"

definition new_message_id :: "message_id io" where
  "new_message_id = (\<lambda>w. (Inr (next_id w), w\<lparr>next_id := Suc (next_id w)\<rparr>))"

definition call :: "env \<Rightarrow> pyval \<Rightarrow> message \<Rightarrow> reply io" where
  \<comment> \<open>\<open>_call(address, message)\<close>, \<open>wait=True\<close>\<close>
  "call E dest m = (\<lambda>w. (caller_call E dest m, w\<lparr>sent := sent w @ [(dest, m)]\<rparr>))"

definition call_nowait :: "env \<Rightarrow> pyval \<Rightarrow> message \<Rightarrow> future io" where
  \<comment> \<open>\<open>_call(address, message, wait=False)\<close>\<close>
  "call_nowait E dest m = (\<lambda>w. (caller_future E dest m, w\<lparr>sent := sent w @ [(dest, m)]\<rparr>))"

definition process_result_message :: "reply \<Rightarrow> pyval io" where
  "process_result_message r =
     (case r of ResultMessage v \<Rightarrow> returnE v | ErrorMessage e \<Rightarrow> raiseE e)"

definition cancel :: "env \<Rightarrow> address \<Rightarrow> message_id \<Rightarrow> pyval io" where
  "cancel E addr cancel_message_id =
     bindE new_message_id (\<lambda>i.
     bindE (call E (PStr addr) (CancelMessage i addr cancel_message_id))
       process_result_message)"

definition wait :: "env \<Rightarrow> future \<Rightarrow> address \<Rightarrow> message \<Rightarrow> reply io" where
  "wait E fut addr m =
     bindE
       (catchE (liftE (shield_wait fut))
          (\<lambda>e. if e = CancelledError
               then catchE (bindE (cancel E addr (message_id m)) (\<lambda>_. returnE ()))
                      (\<lambda>e'. if e' = CannotCancelTask then raiseE CancelledError
                            else raiseE e')
               else returnE ()))
       (\<lambda>_. liftE (final_wait fut))"

definition has_actor :: "env \<Rightarrow> ActorRef \<Rightarrow> pyval io" where
  "has_actor E ref =
     bindE new_message_id (\<lambda>i.
     let m = HasActorMessage i ref in
     bindE (call_nowait E (PStr (address ref)) m) (\<lambda>fut.
     bindE (wait E fut (address ref) m) process_result_message))"

definition destroy_actor :: "env \<Rightarrow> ActorRef \<Rightarrow> pyval io" where
  "destroy_actor E ref =
     bindE new_message_id (\<lambda>i.
     let m = DestroyActorMessage i ref in
     bindE (call_nowait E (PStr (address ref)) m) (\<lambda>fut.
     bindE (wait E fut (address ref) m) process_result_message))"

definition actor_ref :: "env \<Rightarrow> ActorRef \<Rightarrow> pyval io" where
  "actor_ref E ref =
     (case create_local_actor_ref E (address ref) (uid ref) of
        Some local_actor_ref \<Rightarrow> returnE (PRef local_actor_ref)
      | None \<Rightarrow>
          bindE new_message_id (\<lambda>i.
          let m = ActorRefMessage i ref in
          bindE (call_nowait E (PStr (address ref)) m) (\<lambda>fut.
          bindE (wait E fut (address ref) m) process_result_message)))"

definition get_address :: "pyval \<Rightarrow> address io" where
  \<comment> \<open>the attribute read \<open>real_actor_ref.address\<close>\<close>
  "get_address v = (case v of PRef r \<Rightarrow> returnE (address r) | _ \<Rightarrow> raiseE AttributeError)"

definition kill_actor :: "env \<Rightarrow> ActorRef \<Rightarrow> bool \<Rightarrow> pyval io" where
  "kill_actor E ref force =
     bindE new_message_id (\<lambda>i.
     let control_message =
           ControlMessage i (address ref) get_config (PStr ''main_pool_address'') in
     bindE (call E (PStr (address ref)) control_message) (\<lambda>r.
     bindE (process_result_message r) (\<lambda>main_address.
     bindE (actor_ref E ref) (\<lambda>real_actor_ref.
     bindE (get_address real_actor_ref) (\<lambda>real_address.
     if PStr real_address = main_address
     then raiseE (ValueError ''Cannot kill actor on main pool'')
     else
       bindE new_message_id (\<lambda>j.
       let stop_message =
             ControlMessage j real_address stop
               (PTuple [PNum 3, if force then PTrue else PFalse]) in
       bindE (call E main_address stop_message) process_result_message))))))"

datatype send_result = Value pyval | Pending future

definition send :: "env \<Rightarrow> ActorRef \<Rightarrow> content \<Rightarrow> bool \<Rightarrow> task_id option \<Rightarrow> send_result io" where
  "send E ref msg wait_response profiling_context =
     bindE new_message_id (\<lambda>i.
     let send_message = SendMessage i ref msg profiling_context in
     bindE (liftE (case detect_cycle_send E send_message wait_response of
                     Some e \<Rightarrow> Inl e | None \<Rightarrow> Inr ())) (\<lambda>_.
     bindE (call_nowait E (PStr (address ref)) send_message) (\<lambda>fut.
     if wait_response
     then bindE (wait E fut (address ref) send_message) (\<lambda>result.
          bindE (process_result_message result) (\<lambda>v. returnE (Value v)))
     else returnE (Pending fut))))"

definition wait_actor_pool_recovered :: "env \<Rightarrow> address \<Rightarrow> address option \<Rightarrow> unit io" where
  "wait_actor_pool_recovered E addr main_address =
     bindE
       (case main_address of
          None \<Rightarrow>
            bindE new_message_id (\<lambda>i.
            bindE (call E (PStr addr)
                     (ControlMessage i addr get_config (PStr ''main_pool_address'')))
              process_result_message)
        | Some a \<Rightarrow> returnE (PStr a))
       (\<lambda>main_address.
          if PStr addr = main_address then returnE ()
          else
            bindE new_message_id (\<lambda>j.
            bindE (call E main_address (ControlMessage j addr wait_pool_recovered PNone)) (\<lambda>r.
            bindE (process_result_message r) (\<lambda>_. returnE ()))))"

definition get_pool_config :: "env \<Rightarrow> address \<Rightarrow> pyval io" where
  "get_pool_config E addr =
     bindE new_message_id (\<lambda>i.
     bindE (call E (PStr addr) (ControlMessage i addr get_config PNone))
       process_result_message)"

fun is_stop :: "message \<Rightarrow> bool" where
  "is_stop (ControlMessage _ _ stop _) = True"
| "is_stop _ = False"

subsection \<open>Sample collaborators\<close>

text \<open>
  A transport that answers a Cancel message with the given outcome, a
  \<open>get_config\<close> request with the main pool address \<open>main\<close> and everything else awaited
  at once with \<open>None\<close>, and that hands out the given pending handle; no actor is local and
  the cycle check passes.
\<close>

definition sample_env :: "exn + reply \<Rightarrow> future \<Rightarrow> env" where
  "sample_env cancel_outcome fut =
     \<lparr>caller_call = (\<lambda>dest m. case m of
          CancelMessage _ _ _ \<Rightarrow> cancel_outcome
        | ControlMessage _ _ get_config _ \<Rightarrow> Inr (ResultMessage (PStr ''main''))
        | _ \<Rightarrow> Inr (ResultMessage PNone)),
      caller_future = (\<lambda>dest m. Inr fut),
      create_local_actor_ref = (\<lambda>a u. None),
      detect_cycle_send = (\<lambda>m b. None)\<rparr>"

definition cancelled_future :: future where
  "cancelled_future = \<lparr>shield_wait = Inl CancelledError,
                        final_wait = Inr (ResultMessage (PNum 42))\<rparr>"

definition resolved_future :: "pyval \<Rightarrow> future" where
  "resolved_future v = \<lparr>shield_wait = Inr (), final_wait = Inr (ResultMessage v)\<rparr>"

definition main_actor :: ActorRef where
  "main_actor = \<lparr>address = ''main'', uid = ''actor''\<rparr>"

definition sample_content :: content where
  "sample_content = \<lparr>method_name = ''run'', rest_items = [PNum 0, PTuple [], PDict []]\<rparr>"

definition world0 :: world where
  "world0 = \<lparr>sent = [], next_id = 0\<rparr>"

section \<open>The interpreter, comparisons and the heap queue\<close>

text \<open>
  What the interpreter and its environment supply: the process environment; the
  conversions \<open>float(v)\<close>, \<open>int(v)\<close> and \<open>str(v)\<close>, which may raise;
  \<open>bytes.decode('utf-8')\<close>, which may raise; the \<open>==\<close> and \<open><\<close> of objects of user
  classes, which may return anything and raise anything; the entries every class namespace
  holds besides the names bound in the class body (\<open>__module__\<close>, \<open>__dict__\<close>,
  \<open>__weakref__\<close>, \<open>__doc__\<close>); and whether an event loop is running.
\<close>

record python =
  environ :: "string \<Rightarrow> string option"
  py_float :: "pyval \<Rightarrow> exn + rat"
  py_int :: "pyval \<Rightarrow> exn + int"
  py_str :: "pyval \<Rightarrow> exn + string"
  decode_utf8 :: "string \<Rightarrow> exn + string"
  object_eq :: "pyval \<Rightarrow> pyval \<Rightarrow> exn + bool"
  object_lt :: "pyval \<Rightarrow> pyval \<Rightarrow> exn + bool"
  class_attrs :: "string list"
  running_loop :: bool

fun is_object :: "pyval \<Rightarrow> bool" where
  "is_object (PObject _) = True"
| "is_object _ = False"

text \<open>
  The equality test the containers use (\<open>PyObject_RichCompareBool\<close> with \<open>Py_EQ\<close>):
  identical objects are equal without asking them; a comparison with an object of a user
  class is that class's business; tuples are equal when no position differs and the lengths
  agree; dicts are equal when they have as many keys and each key of the first has an equal
  value in the second.
\<close>

fun py_eq :: "python \<Rightarrow> pyval \<Rightarrow> pyval \<Rightarrow> exn + bool"
  and tuple_eq :: "python \<Rightarrow> pyval list \<Rightarrow> pyval list \<Rightarrow> exn + bool"
  and dict_eq :: "python \<Rightarrow> (string \<times> pyval) list \<Rightarrow> (string \<times> pyval) list \<Rightarrow> exn + bool"
where
  "py_eq P (PTuple xs) b =
     (case b of PTuple ys \<Rightarrow> tuple_eq P xs ys
      | PObject j \<Rightarrow> object_eq P (PTuple xs) b
      | _ \<Rightarrow> Inr False)"
| "py_eq P (PDict xs) b =
     (case b of PDict ys \<Rightarrow> (if length xs = length ys then dict_eq P xs ys else Inr False)
      | PObject j \<Rightarrow> object_eq P (PDict xs) b
      | _ \<Rightarrow> Inr False)"
| "py_eq P (PObject i) b =
     (if b = PObject i then Inr True else object_eq P (PObject i) b)"
| "py_eq P a b = (if is_object b then object_eq P a b else Inr (a = b))"
| "tuple_eq P [] ys = Inr (ys = [])"
| "tuple_eq P (x # xs) [] = Inr False"
| "tuple_eq P (x # xs) (y # ys) =
     (case py_eq P x y of
        Inl e \<Rightarrow> Inl e
      | Inr False \<Rightarrow> Inr False
      | Inr True \<Rightarrow> tuple_eq P xs ys)"
| "dict_eq P [] ys = Inr True"
| "dict_eq P ((k, v) # xs) ys =
     (case map_of ys k of
        None \<Rightarrow> Inr False
      | Some w \<Rightarrow>
          (case py_eq P v w of
             Inl e \<Rightarrow> Inl e
           | Inr False \<Rightarrow> Inr False
           | Inr True \<Rightarrow> dict_eq P xs ys))"

text \<open>
  Python's \<open><\<close>. Numbers, strings and bytes compare among themselves; tuples compare at
  their first unequal position, found with the equality test above, or by length; an
  object of a user class decides for itself; every other pair raises \<open>TypeError\<close>.
\<close>

fun py_lt :: "python \<Rightarrow> pyval \<Rightarrow> pyval \<Rightarrow> exn + bool"
  and tuple_lt :: "python \<Rightarrow> pyval list \<Rightarrow> pyval list \<Rightarrow> exn + bool" where
  "py_lt P (PTuple xs) b =
     (case b of PTuple ys \<Rightarrow> tuple_lt P xs ys
      | PObject j \<Rightarrow> object_lt P (PTuple xs) b
      | _ \<Rightarrow> Inl TypeError)"
| "py_lt P (PNum x) b =
     (case b of PNum y \<Rightarrow> Inr (x < y)
      | PObject j \<Rightarrow> object_lt P (PNum x) b
      | _ \<Rightarrow> Inl TypeError)"
| "py_lt P (PStr x) b =
     (case b of PStr y \<Rightarrow> Inr (x < y)
      | PObject j \<Rightarrow> object_lt P (PStr x) b
      | _ \<Rightarrow> Inl TypeError)"
| "py_lt P (PBytes x) b =
     (case b of PBytes y \<Rightarrow> Inr (x < y)
      | PObject j \<Rightarrow> object_lt P (PBytes x) b
      | _ \<Rightarrow> Inl TypeError)"
| "py_lt P (PObject i) b = object_lt P (PObject i) b"
| "py_lt P a b = (if is_object b then object_lt P a b else Inl TypeError)"
| "tuple_lt P [] ys = Inr (ys \<noteq> [])"
| "tuple_lt P (x # xs) [] = Inr False"
| "tuple_lt P (x # xs) (y # ys) =
     (case py_eq P x y of
        Inl e \<Rightarrow> Inl e
      | Inr True \<Rightarrow> tuple_lt P xs ys
      | Inr False \<Rightarrow> py_lt P x y)"

text \<open>
  \<open>heapq.heappush\<close> and \<open>heapq.heapreplace\<close> as CPython runs them (the \<open>_heapq\<close>
  accelerator): items move by swaps, and a comparison that raises leaves the list as the
  swaps made so far have left it. The result is the raised exception, if any, and the list.
\<close>

function siftdown ::
  "('a \<Rightarrow> 'a \<Rightarrow> exn + bool) \<Rightarrow> 'a list \<Rightarrow> nat \<Rightarrow> nat \<Rightarrow> exn option \<times> 'a list" where
  "siftdown lt heap startpos pos =
     (if startpos < pos \<and> pos < length heap then
        (let parentpos = (pos - 1) div 2 in
         case lt (heap ! pos) (heap ! parentpos) of
           Inl e \<Rightarrow> (Some e, heap)
         | Inr False \<Rightarrow> (None, heap)
         | Inr True \<Rightarrow>
             siftdown lt (heap[parentpos := heap ! pos, pos := heap ! parentpos])
               startpos parentpos)
      else (None, heap))"
  by pat_completeness auto
termination
  by (relation "measure (\<lambda>(lt, heap, startpos, pos). pos)") auto

definition smaller_child :: "('a \<Rightarrow> 'a \<Rightarrow> exn + bool) \<Rightarrow> 'a list \<Rightarrow> nat \<Rightarrow> exn + nat" where
  "smaller_child lt heap pos =
     (let childpos = 2 * pos + 1 in
      if childpos + 1 < length heap then
        (case lt (heap ! childpos) (heap ! (childpos + 1)) of
           Inl e \<Rightarrow> Inl e
         | Inr cmp \<Rightarrow> Inr (if cmp then childpos else childpos + 1))
      else Inr childpos)"

function bubble_up ::
  "('a \<Rightarrow> 'a \<Rightarrow> exn + bool) \<Rightarrow> 'a list \<Rightarrow> nat \<Rightarrow> exn option \<times> 'a list \<times> nat" where
  "bubble_up lt heap pos =
     (if pos < length heap div 2 then
        (case smaller_child lt heap pos of
           Inl e \<Rightarrow> (Some e, heap, pos)
         | Inr childpos \<Rightarrow>
             bubble_up lt (heap[childpos := heap ! pos, pos := heap ! childpos]) childpos)
      else (None, heap, pos))"
  by pat_completeness auto
termination
  by (relation "measure (\<lambda>(lt, heap, pos). length heap - pos)")
     (auto simp: smaller_child_def Let_def split: if_splits sum.splits)

definition siftup :: "('a \<Rightarrow> 'a \<Rightarrow> exn + bool) \<Rightarrow> 'a list \<Rightarrow> nat \<Rightarrow> exn option \<times> 'a list" where
  "siftup lt heap pos =
     (case bubble_up lt heap pos of
        (Some e, heap', _) \<Rightarrow> (Some e, heap')
      | (None, heap', leaf) \<Rightarrow> siftdown lt heap' pos leaf)"

definition heappush :: "('a \<Rightarrow> 'a \<Rightarrow> exn + bool) \<Rightarrow> 'a list \<Rightarrow> 'a \<Rightarrow> exn option \<times> 'a list" where
  "heappush lt heap item = siftdown lt (heap @ [item]) 0 (length heap)"

definition heapreplace :: "('a \<Rightarrow> 'a \<Rightarrow> exn + bool) \<Rightarrow> 'a list \<Rightarrow> 'a \<Rightarrow> exn option \<times> 'a list" where
  "heapreplace lt heap item =
     (if heap = [] then (Some IndexError, heap) else siftup lt (heap[0 := item]) 0)"

section \<open>Profiling (profiling.py)\<close>

subsection \<open>\<open>_ProfilingOptions\<close> and its descriptors\<close>

definition upper :: "string \<Rightarrow> string" where
  "upper s = map (\<lambda>c. if CHR ''a'' \<le> c \<and> c \<le> CHR ''z''
                       then char_of (of_char c - (32::nat)) else c) s"

definition descriptor_get ::
  "python \<Rightarrow> (pyval \<Rightarrow> exn + 'a) \<Rightarrow> pyval \<Rightarrow> string \<Rightarrow> (string \<times> pyval) list
     \<Rightarrow> exn + 'a option" where
  \<comment> \<open>\<open>_ProfilingOptionDescriptor.__get__\<close>; an absent value is \<open>None\<close>. The option
      mapping and the environment are fixed here, so the cached value is the computed one.\<close>
  "descriptor_get P ty dflt name opts =
     (let v = (case map_of opts name of None \<Rightarrow> PNone | Some x \<Rightarrow> x);
          v = (if v = PNone
               then (case environ P (''MARS_PROFILING_'' @ upper name) of
                       None \<Rightarrow> dflt | Some s \<Rightarrow> PStr s)
               else v)
      in if v \<noteq> PNone
         then (case ty v of Inl e \<Rightarrow> Inl e | Inr x \<Rightarrow> Inr (Some x))
         else Inr None)"

definition debug_interval_seconds :: "python \<Rightarrow> (string \<times> pyval) list \<Rightarrow> exn + rat option" where
  "debug_interval_seconds P opts =
     descriptor_get P (py_float P) PNone ''debug_interval_seconds'' opts"

definition slow_calls_duration_threshold ::
  "python \<Rightarrow> (string \<times> pyval) list \<Rightarrow> exn + int option" where
  "slow_calls_duration_threshold P opts =
     descriptor_get P (py_int P) (PNum 1) ''slow_calls_duration_threshold'' opts"

definition slow_subtasks_duration_threshold ::
  "python \<Rightarrow> (string \<times> pyval) list \<Rightarrow> exn + int option" where
  "slow_subtasks_duration_threshold P opts =
     descriptor_get P (py_int P) (PNum 10) ''slow_subtasks_duration_threshold'' opts"

definition class_dict_keys :: "python \<Rightarrow> string list" where
  \<comment> \<open>\<open>type(self).__dict__.keys()\<close>: the names bound in the class body, and the implicit ones\<close>
  "class_dict_keys P =
     class_attrs P @ [''debug_interval_seconds'', ''slow_calls_duration_threshold'',
                      ''slow_subtasks_duration_threshold'', ''__init__'']"

fun contains :: "python \<Rightarrow> pyval list \<Rightarrow> pyval \<Rightarrow> exn + bool" where
  \<comment> \<open>\<open>x in items\<close> for a tuple of items: the first item equal to \<open>x\<close> decides\<close>
  "contains P [] x = Inr False"
| "contains P (item # items) x =
     (case py_eq P item x of
        Inl e \<Rightarrow> Inl e
      | Inr True \<Rightarrow> Inr True
      | Inr False \<Rightarrow> contains P items x)"

definition ProfilingOptions :: "python \<Rightarrow> pyval \<Rightarrow> exn + (string \<times> pyval) list" where
  \<comment> \<open>\<open>_ProfilingOptions.__init__\<close>: the result is the \<open>_options\<close> mapping\<close>
  "ProfilingOptions P options =
     (case options of
        PDict kv \<Rightarrow>
          (let invalid_keys = filter (\<lambda>k. k \<notin> set (class_dict_keys P)) (map fst kv) in
           if invalid_keys \<noteq> [] then Inl (ValueError ''Invalid profiling options'')
           else Inr kv)
      | _ \<Rightarrow>
          (case contains P [PTrue, PFalse, PNone] options of
             Inl e \<Rightarrow> Inl e
           | Inr True \<Rightarrow> Inr []
           | Inr False \<Rightarrow> Inl (ValueError ''Invalid profiling options'')))"

subsection \<open>\<open>_CallStats\<close>\<close>

type_synonym slow_call_key = "rat \<times> uid \<times> address \<times> content"

record CallStats =
  options :: "(string \<times> pyval) list"
  call_counter :: "((uid \<times> string) \<times> nat) list"
  slow_calls :: "slow_call_key list"

definition content_val :: "content \<Rightarrow> pyval" where
  "content_val c = PTuple (PStr (method_name c) # rest_items c)"

definition key_val :: "slow_call_key \<Rightarrow> pyval" where
  "key_val k = (case k of (duration, u, a, c) \<Rightarrow>
     PTuple [PNum duration, PBytes u, PStr a, content_val c])"

definition key_lt :: "python \<Rightarrow> slow_call_key \<Rightarrow> slow_call_key \<Rightarrow> exn + bool" where
  "key_lt P a b = py_lt P (key_val a) (key_val b)"

definition counter_inc :: "'k \<Rightarrow> ('k \<times> nat) list \<Rightarrow> ('k \<times> nat) list" where
  \<comment> \<open>\<open>counter[key] += 1\<close> on a \<open>collections.Counter\<close>\<close>
  "counter_inc key c =
     AList.update key ((case map_of c key of None \<Rightarrow> 0 | Some n \<Rightarrow> n) + 1) c"

fun call_of :: "message \<Rightarrow> (ActorRef \<times> content) option" where
  "call_of (SendMessage _ ref c _) = Some (ref, c)"
| "call_of (TellMessage _ ref c) = Some (ref, c)"
| "call_of _ = None"

definition collect :: "python \<Rightarrow> CallStats \<Rightarrow> message \<Rightarrow> rat \<Rightarrow> exn option \<times> CallStats" where
  "collect P stats message duration =
     (case call_of message of
        None \<Rightarrow> (Some AttributeError, stats)
      | Some (ref, c) \<Rightarrow>
          (let key = (uid ref, method_name c);
               stats1 = stats\<lparr>call_counter := counter_inc key (call_counter stats)\<rparr>
           in case slow_calls_duration_threshold P (options stats1) of
                Inl e \<Rightarrow> (Some e, stats1)
              | Inr None \<Rightarrow> (Some TypeError, stats1)
              | Inr (Some threshold) \<Rightarrow>
                  if duration < of_int threshold then (None, stats1)
                  else
                    (let slow_call_key = (duration, uid ref, address ref, c);
                         (raised, heap) =
                           (if length (slow_calls stats1) < 10
                            then heappush (key_lt P) (slow_calls stats1) slow_call_key
                            else heapreplace (key_lt P) (slow_calls stats1) slow_call_key)
                     in (if raised = Some TypeError then None else raised,
                         stats1\<lparr>slow_calls := heap\<rparr>))))"

datatype tree = Leaf pyval | Node "(string \<times> tree) list"

definition most_common :: "nat \<Rightarrow> ('k \<times> nat) list \<Rightarrow> ('k \<times> nat) list" where
  \<comment> \<open>\<open>Counter.most_common(n)\<close>: by count, largest first, equal counts in insertion order\<close>
  "most_common n c = take n (rev (sort_key snd (rev c)))"

definition dict_update :: "('k \<times> 'v) list \<Rightarrow> ('k \<times> 'v) list \<Rightarrow> ('k \<times> 'v) list" where
  \<comment> \<open>\<open>r.update(d)\<close>\<close>
  "dict_update r d = foldl (\<lambda>r (k, v). AList.update k v r) r d"

fun most_calls_dict ::
  "python \<Rightarrow> ((uid \<times> string) \<times> nat) list \<Rightarrow> (string \<times> tree) list
     \<Rightarrow> exn + (string \<times> tree) list" where
  \<comment> \<open>the first loop of \<open>to_dict\<close>, over \<open>most_common(10)\<close>\<close>
  "most_calls_dict P [] d = Inr d"
| "most_calls_dict P (((u, name), n) # rest) d =
     (case decode_utf8 P u of
        Inl e \<Rightarrow> Inl e
      | Inr text \<Rightarrow>
          most_calls_dict P rest
            (AList.update (text @ ''.'' @ name) (Leaf (PNum (of_nat n))) d))"

fun slow_calls_dict ::
  "python \<Rightarrow> slow_call_key list \<Rightarrow> (string \<times> tree) list \<Rightarrow> exn + (string \<times> tree) list" where
  \<comment> \<open>the second loop of \<open>to_dict\<close>, over the slow calls by falling duration; the content
      is unpacked into four names, and the key is formatted from left to right\<close>
  "slow_calls_dict P [] d = Inr d"
| "slow_calls_dict P ((duration, u, a, c) # others) d =
     (case rest_items c of
        [batch, args, kwargs] \<Rightarrow>
          (case decode_utf8 P u of
             Inl e \<Rightarrow> Inl e
           | Inr text \<Rightarrow>
               (case py_str P args of
                  Inl e \<Rightarrow> Inl e
                | Inr args_text \<Rightarrow>
                    (case py_str P kwargs of
                       Inl e \<Rightarrow> Inl e
                     | Inr kwargs_text \<Rightarrow>
                         slow_calls_dict P others
                           (AList.update
                              (''['' @ a @ '']'' @ text @ ''.'' @ method_name c
                                 @ ''(args='' @ args_text @ '', kwargs='' @ kwargs_text @ '')'')
                              (Leaf (PNum duration)) d))))
      | _ \<Rightarrow> Inl (ValueError ''wrong number of values to unpack''))"

definition to_dict :: "python \<Rightarrow> CallStats \<Rightarrow> exn + (string \<times> tree) list" where
  "to_dict P stats =
     (case most_calls_dict P (most_common 10 (call_counter stats)) [] of
        Inl e \<Rightarrow> Inl e
      | Inr most_calls \<Rightarrow>
          (case slow_calls_dict P (rev (sort_key fst (rev (slow_calls stats)))) [] of
             Inl e \<Rightarrow> Inl e
           | Inr slow \<Rightarrow> Inr [(''most_calls'', Node most_calls), (''slow_calls'', Node slow)]))"

subsection \<open>\<open>_ProfilingData\<close>\<close>

text \<open>
  The registry's three dictionaries, in insertion order. A background debug task is a
  handle; \<open>cancelled\<close> lists the handles on which \<open>cancel()\<close> has been called and
  \<open>next_task\<close> numbers the tasks \<open>asyncio.create_task\<close> creates.
\<close>

record ProfilingData =
  data :: "(task_id \<times> (string \<times> tree) list) list"
  call_stats :: "(task_id \<times> CallStats) list"
  debug_task :: "(task_id \<times> nat) list"
  cancelled :: "nat list"
  next_task :: nat

definition new_tree :: "(string \<times> tree) list" where
  "new_tree = [(''general'', Node []), (''serialization'', Node []), (''most_calls'', Node []),
               (''slow_calls'', Node []), (''band_subtasks'', Node []),
               (''slow_subtasks'', Node [])]"

definition init :: "python \<Rightarrow> task_id \<Rightarrow> pyval \<Rightarrow> ProfilingData \<Rightarrow> exn option \<times> ProfilingData" where
  \<comment> \<open>\<open>asyncio.create_task\<close> raises \<open>RuntimeError\<close> when no event loop is running\<close>
  "init P task options_arg reg =
     (case ProfilingOptions P options_arg of
        Inl e \<Rightarrow> (Some e, reg)
      | Inr opts \<Rightarrow>
          (case debug_interval_seconds P opts of
             Inl e \<Rightarrow> (Some e, reg)
           | Inr interval \<Rightarrow>
               (let reg1 = reg\<lparr>data := AList.update task new_tree (data reg)\<rparr>;
                    reg2 = reg1\<lparr>call_stats :=
                             AList.update task
                               \<lparr>options = opts, call_counter = [], slow_calls = []\<rparr>
                               (call_stats reg1)\<rparr>
                in case interval of
                     None \<Rightarrow> (None, reg2)
                   | Some _ \<Rightarrow>
                       if running_loop P
                       then (None, reg2\<lparr>debug_task :=
                                          AList.update task (next_task reg2) (debug_task reg2),
                                        next_task := Suc (next_task reg2)\<rparr>)
                       else (Some (RuntimeError ''no running event loop''), reg2))))"

definition debug_done :: "task_id \<Rightarrow> ProfilingData \<Rightarrow> ProfilingData" where
  \<comment> \<open>the done callback of a debug task: \<open>self._debug_task.pop(task_id, None)\<close>\<close>
  "debug_done task reg = reg\<lparr>debug_task := AList.delete task (debug_task reg)\<rparr>"

definition pop ::
  "python \<Rightarrow> task_id \<Rightarrow> ProfilingData \<Rightarrow> (exn + (string \<times> tree) list option) \<times> ProfilingData" where
  "pop P task reg =
     (let reg1 = reg\<lparr>debug_task := AList.delete task (debug_task reg)\<rparr>;
          reg2 = (case map_of (debug_task reg) task of
                    None \<Rightarrow> reg1
                  | Some h \<Rightarrow> reg1\<lparr>cancelled := cancelled reg1 @ [h]\<rparr>);
          reg3 = reg2\<lparr>data := AList.delete task (data reg2)\<rparr>
      in case map_of (data reg) task of
           None \<Rightarrow> (Inr None, reg3)
         | Some r \<Rightarrow>
             (case map_of (call_stats reg3) task of
                None \<Rightarrow> (Inl KeyError, reg3)
              | Some stats \<Rightarrow>
                  (let reg4 = reg3\<lparr>call_stats := AList.delete task (call_stats reg3)\<rparr> in
                   case to_dict P stats of
                     Inl e \<Rightarrow> (Inl e, reg4)
                   | Inr snapshot \<Rightarrow> (Inr (Some (dict_update r snapshot)), reg4))))"

fun collect_each ::
  "python \<Rightarrow> message \<Rightarrow> rat \<Rightarrow> (task_id \<times> CallStats) list
     \<Rightarrow> exn option \<times> (task_id \<times> CallStats) list" where
  \<comment> \<open>the loop \<open>for stats in self._call_stats.values(): stats.collect(message, duration)\<close>\<close>
  "collect_each P message duration [] = (None, [])"
| "collect_each P message duration ((task, stats) # rest) =
     (case collect P stats message duration of
        (Some e, stats') \<Rightarrow> (Some e, (task, stats') # rest)
      | (None, stats') \<Rightarrow>
          (case collect_each P message duration rest of
             (raised, rest') \<Rightarrow> (raised, (task, stats') # rest')))"

definition collect_actor_call ::
  "python \<Rightarrow> message \<Rightarrow> rat \<Rightarrow> ProfilingData \<Rightarrow> exn option \<times> ProfilingData" where
  "collect_actor_call P message duration reg =
     (if call_stats reg \<noteq> [] then
        (if call_of message \<noteq> None then
           (case collect_each P message duration (call_stats reg) of
              (raised, stats) \<Rightarrow> (raised, reg\<lparr>call_stats := stats\<rparr>))
         else (None, reg))
      else (None, reg))"

definition empty_registry :: ProfilingData where
  \<comment> \<open>\<open>_ProfilingData.__init__\<close>\<close>
  "empty_registry = \<lparr>data = [], call_stats = [], debug_task = [], cancelled = [], next_task = 0\<rparr>"

text \<open>
  The registry states the program can be in: the fresh registry, and what \<open>init\<close>,
  \<open>pop\<close>, \<open>collect_actor_call\<close> and the completion of a debug task make of one. The
  nested counter view (\<open>__getitem__\<close> with \<open>ProfilingDataOperator\<close>) changes the tree of
  a registered task in place, to whatever its callers write.
\<close>

inductive reachable :: "python \<Rightarrow> ProfilingData \<Rightarrow> bool" for P :: python where
  reachable_empty: "reachable P empty_registry"
| reachable_init: "reachable P reg \<Longrightarrow> reachable P (snd (init P task options_arg reg))"
| reachable_pop: "reachable P reg \<Longrightarrow> reachable P (snd (pop P task reg))"
| reachable_collect:
    "reachable P reg \<Longrightarrow> reachable P (snd (collect_actor_call P message duration reg))"
| reachable_debug_done: "reachable P reg \<Longrightarrow> reachable P (debug_done task reg)"
| reachable_mutate:
    "reachable P reg \<Longrightarrow> task \<in> fst ` set (data reg) \<Longrightarrow>
     reachable P (reg\<lparr>data := AList.update task t (data reg)\<rparr>)"

subsection \<open>Sample interpreter, messages and statistics\<close>

fun digits_value :: "string \<Rightarrow> nat \<Rightarrow> nat option" where
  "digits_value [] n = Some n"
| "digits_value (c # cs) n =
     (if CHR ''0'' \<le> c \<and> c \<le> CHR ''9''
      then digits_value cs (10 * n + (of_char c - 48)) else None)"

definition unsigned_decimal :: "string \<Rightarrow> rat option" where
  "unsigned_decimal s =
     (let whole = takeWhile (\<lambda>c. c \<noteq> CHR ''.'') s;
          point = dropWhile (\<lambda>c. c \<noteq> CHR ''.'') s
      in case point of
           [] \<Rightarrow> (if whole = [] then None else map_option of_nat (digits_value whole 0))
         | _ # fraction \<Rightarrow>
             (if whole = [] \<and> fraction = [] then None
              else (case (digits_value whole 0, digits_value fraction 0) of
                      (Some a, Some b) \<Rightarrow> Some (of_nat a + of_nat b / 10 ^ length fraction)
                    | _ \<Rightarrow> None)))"

definition signed :: "(string \<Rightarrow> 'a option) \<Rightarrow> string \<Rightarrow> ('a::uminus) option" where
  "signed parse s =
     (case s of
        c # cs \<Rightarrow> (if c = CHR ''-'' then map_option uminus (parse cs)
                   else if c = CHR ''+'' then parse cs else parse s)
      | [] \<Rightarrow> None)"

definition int_literal :: "string \<Rightarrow> exn + int" where
  "int_literal s =
     (case signed (\<lambda>ds. if ds = [] then None else map_option int (digits_value ds 0)) s of
        Some i \<Rightarrow> Inr i
      | None \<Rightarrow> Inl (ValueError ''invalid literal for int()''))"

definition float_literal :: "string \<Rightarrow> exn + rat" where
  "float_literal s =
     (case signed unsigned_decimal s of
        Some r \<Rightarrow> Inr r
      | None \<Rightarrow> Inl (ValueError ''could not convert string to float''))"

definition continuation :: "char \<Rightarrow> bool" where
  "continuation c = (128 \<le> (of_char c :: nat) \<and> (of_char c :: nat) < 192)"

fun valid_utf8 :: "string \<Rightarrow> bool" where
  \<comment> \<open>well-formed UTF-8: no overlong form, no surrogate, nothing above U+10FFFF\<close>
  "valid_utf8 [] = True"
| "valid_utf8 (c # cs) =
     (let b = (of_char c :: nat) in
      if b < 128 then valid_utf8 cs
      else if 194 \<le> b \<and> b < 224 then
        (case cs of c1 # r \<Rightarrow> continuation c1 \<and> valid_utf8 r | _ \<Rightarrow> False)
      else if 224 \<le> b \<and> b < 240 then
        (case cs of
           c1 # c2 # r \<Rightarrow>
             continuation c1 \<and> continuation c2
             \<and> (if b = 224 then 160 \<le> (of_char c1 :: nat)
                 else if b = 237 then (of_char c1 :: nat) < 160 else True)
             \<and> valid_utf8 r
         | _ \<Rightarrow> False)
      else if 240 \<le> b \<and> b < 245 then
        (case cs of
           c1 # c2 # c3 # r \<Rightarrow>
             continuation c1 \<and> continuation c2 \<and> continuation c3
             \<and> (if b = 240 then 144 \<le> (of_char c1 :: nat)
                 else if b = 244 then (of_char c1 :: nat) < 144 else True)
             \<and> valid_utf8 r
         | _ \<Rightarrow> False)
      else False)"

text \<open>
  An interpreter with the given process environment and, or not, a running event loop.
  Numbers convert as in Python (\<open>int\<close> truncates toward zero); strings and bytes convert
  when they are plain decimal literals with an optional sign (padding, underscores,
  exponents and the words \<open>inf\<close> and \<open>nan\<close>, which Python also reads, do not occur in the
  examples); \<open>None\<close>, tuples, dicts, references and objects raise \<open>TypeError\<close>. A text
  is written as its UTF-8 bytes, so bytes that are well-formed UTF-8 decode to themselves
  and the others raise \<open>UnicodeDecodeError\<close>. Of the values the examples render, the empty
  tuple reads \<open>()\<close> and the empty dict \<open>{}\<close>; the rendering of the others is never
  looked at and stands as three dots. Objects of user classes are equal to nothing and
  refuse \<open><\<close>.
\<close>

definition cpython_with :: "(string \<Rightarrow> string option) \<Rightarrow> bool \<Rightarrow> python" where
  "cpython_with env loop =
     \<lparr>environ = env,
      py_float = (\<lambda>v. case v of
          PNum r \<Rightarrow> Inr r
        | PStr s \<Rightarrow> float_literal s
        | PBytes s \<Rightarrow> float_literal s
        | _ \<Rightarrow> Inl TypeError),
      py_int = (\<lambda>v. case v of
          PNum r \<Rightarrow> Inr (if 0 \<le> r then \<lfloor>r\<rfloor> else \<lceil>r\<rceil>)
        | PStr s \<Rightarrow> int_literal s
        | PBytes s \<Rightarrow> int_literal s
        | _ \<Rightarrow> Inl TypeError),
      py_str = (\<lambda>v. Inr (if v = PTuple [] then ''()''
                         else if v = PDict [] then ''{}'' else ''...'')),
      decode_utf8 = (\<lambda>s. if valid_utf8 s then Inr s else Inl UnicodeDecodeError),
      object_eq = (\<lambda>a b. Inr False),
      object_lt = (\<lambda>a b. Inl TypeError),
      class_attrs = [''__module__'', ''__dict__'', ''__weakref__'', ''__doc__''],
      running_loop = loop\<rparr>"

definition cpython :: python where
  "cpython = cpython_with (\<lambda>name. None) True"

definition run_content :: "(string \<times> pyval) list \<Rightarrow> content" where
  "run_content kw = \<lparr>method_name = ''run'', rest_items = [PNum 0, PTuple [], PDict kw]\<rparr>"

definition run_message :: "(string \<times> pyval) list \<Rightarrow> message" where
  "run_message kw = SendMessage 0 main_actor (run_content kw) None"

definition call_message :: "string \<Rightarrow> pyval list \<Rightarrow> message" where
  "call_message name items = SendMessage 0 main_actor \<lparr>method_name = name, rest_items = items\<rparr> None"

definition slow_key :: "rat \<Rightarrow> slow_call_key" where
  "slow_key d = (d, ''actor'', ''main'', run_content [])"

definition full_stats :: CallStats where
  "full_stats = \<lparr>options = [(''slow_calls_duration_threshold'', PNum 0)],
                 call_counter = [((''actor'', ''run''), 10)],
                 slow_calls = map slow_key [1, 2, 3, 4, 5, 6, 7, 8, 9, 10]\<rparr>"

definition one_stats :: CallStats where
  "one_stats = \<lparr>options = [], call_counter = [((''actor'', ''run''), 1)],
                slow_calls = [slow_key 1]\<rparr>"

definition profiled_stats :: CallStats where
  "profiled_stats =
     \<lparr>options = [(''debug_interval_seconds'', PNum 5)],
      call_counter = [((''actor'', ''run''), Suc 0), ((''actor'', ''stop''), Suc 0)],
      slow_calls =
        [(2, ''actor'', ''main'',
            \<lparr>method_name = ''stop'', rest_items = [PNum 0, PTuple [], PDict []]\<rparr>),
         (3, ''actor'', ''main'',
            \<lparr>method_name = ''run'', rest_items = [PNum 0, PTuple [], PDict []]\<rparr>)]\<rparr>"

definition profiled_registry :: ProfilingData where
  \<comment> \<open>\<open>init("job", {"debug_interval_seconds": 5})\<close> on a fresh registry, then a call of
      \<open>run\<close> that took 3 seconds and a call of \<open>stop\<close> that took 2\<close>
  "profiled_registry =
     snd (collect_actor_call cpython (call_message ''stop'' [PNum 0, PTuple [], PDict []]) 2
       (snd (collect_actor_call cpython (call_message ''run'' [PNum 0, PTuple [], PDict []]) 3
         (snd (init cpython ''job'' (PDict [(''debug_interval_seconds'', PNum 5)])
            empty_registry)))))"


section \<open>The percentile collector\<close>

text \<open>
  Modelled from the spec: the \<open>Percentile\<close> collector of \<open>metrics/api.py\<close>, whose source is
  not among the files at hand (only its test is). The spec gives it a percentile, a window,
  a callback, a bounded structure of capacity \<open>k = ceil(window * (100 - percentile) / 100)\<close>
  holding the \<open>k\<close> smallest values seen, and a counter \<open>samples_seen\<close>. The held values are
  kept in ascending order, so that the current maximum is the last one; \<open>reported\<close> lists
  the values the callback has been invoked with. Where the spec is silent, with nothing held
  when the window is reached, the maximum of nothing is an error and no callback is made.
\<close>

record 'a Percentile =
  percentile_type :: int
  window :: int
  held :: "'a list"
  samples_seen :: int
  fired :: bool
  reported :: "'a list"

definition capacity :: "int \<Rightarrow> int \<Rightarrow> int" where
  "capacity p w = \<lceil>of_int (w * (100 - p)) / (100 :: rat)\<rceil>"

definition Percentile_init :: "int \<Rightarrow> int \<Rightarrow> exn + 'a Percentile" where
  \<comment> \<open>construction validates \<open>percentile_type >= 0\<close> and \<open>window >= 0\<close>\<close>
  "Percentile_init p w =
     (if p < 0 \<or> w < 0 then Inl (ValueError ''invalid percentile or window'')
      else Inr \<lparr>percentile_type = p, window = w, held = [], samples_seen = 0,
                fired = False, reported = []\<rparr>)"

fun insert_sorted :: "'a::linorder \<Rightarrow> 'a list \<Rightarrow> 'a list" where
  "insert_sorted v [] = [v]"
| "insert_sorted v (x # xs) = (if v < x then v # x # xs else x # insert_sorted v xs)"

definition record_data :: "'a::linorder \<Rightarrow> 'a Percentile \<Rightarrow> exn + 'a Percentile" where
  "record_data v c =
     (if fired c then Inr c
      else
        (let k = capacity (percentile_type c) (window c);
             seen = samples_seen c + 1;
             held' = (if int (length (held c)) < k then insert_sorted v (held c)
                      else if held c \<noteq> [] \<and> v < last (held c)
                           then insert_sorted v (butlast (held c))
                      else held c);
             c' = c\<lparr>samples_seen := seen, held := held'\<rparr>
         in if seen = window c
            then (if held' = [] then Inl (ValueError ''no value held'')
                  else Inr (c'\<lparr>fired := True, reported := reported c @ [last held']\<rparr>))
            else Inr c'))"

fun record_all :: "'a::linorder list \<Rightarrow> 'a Percentile \<Rightarrow> exn + 'a Percentile" where
  \<comment> \<open>successive \<open>record_data\<close> calls, as far as none raises\<close>
  "record_all [] c = Inr c"
| "record_all (v # vs) c =
     (case record_data v c of Inl e \<Rightarrow> Inl e | Inr c' \<Rightarrow> record_all vs c')"

section \<open>Verified properties\<close>

subsection \<open>The actor context\<close>

lemmas io_defs = returnE_def raiseE_def bindE_def catchE_def liftE_def new_message_id_def
  call_def call_nowait_def process_result_message_def

text \<open>
  C1 (as amended). When the awaiting task is cancelled during the shielded wait, \<open>_wait\<close>
  issues one \<open>cancel(address, message_id)\<close> RPC for the awaited message. If that RPC fails
  with \<open>CannotCancelTask\<close> the cancellation is re-raised; if it fails with anything else,
  that failure propagates to the caller (the bare \<open>except\<close> guards the shielded await only,
  not its sibling handler); if it returns normally, the original handle is awaited again and
  its outcome is returned.
\<close>

theorem wait_cancelled:
  assumes "shield_wait fut = Inl CancelledError"
  shows "wait E fut addr m w =
     (case cancel E addr (message_id m) w of
        (Inl e, w') \<Rightarrow> (Inl (if e = CannotCancelTask then CancelledError else e), w')
      | (Inr v, w') \<Rightarrow> (final_wait fut, w'))
    \<and> sent (snd (wait E fut addr m w)) =
        sent w @ [(PStr addr, CancelMessage (next_id w) addr (message_id m))]"
  using assms
  by (auto simp: wait_def cancel_def io_defs split: prod.splits sum.splits reply.splits)

theorem wait_cancelled_witness:
  "shield_wait cancelled_future = Inl CancelledError
   \<and> wait (sample_env (Inr (ErrorMessage CannotCancelTask)) cancelled_future) cancelled_future
        ''pool'' (HasActorMessage 7 main_actor) world0
     = (Inl CancelledError,
        \<lparr>sent = [(PStr ''pool'', CancelMessage 0 ''pool'' 7)], next_id = 1\<rparr>)"
  using wait_cancelled [of cancelled_future
      "sample_env (Inr (ErrorMessage CannotCancelTask)) cancelled_future"
      "''pool''" "HasActorMessage 7 main_actor" world0]
  by (simp add: cancelled_future_def sample_env_def world0_def cancel_def io_defs)

text \<open>
  C1 as stated fails: a cancel RPC that fails with an error other than
  \<open>CannotCancelTask\<close> is not swallowed, although the handle holds a result.
\<close>

theorem wait_swallow_counterexample:
  "shield_wait cancelled_future = Inl CancelledError
   \<and> fst (cancel (sample_env (Inr (ErrorMessage (RemoteError ''connection lost''))) cancelled_future)
        ''pool'' 7 world0) = Inl (RemoteError ''connection lost'')
   \<and> final_wait cancelled_future = Inr (ResultMessage (PNum 42))
   \<and> fst (wait (sample_env (Inr (ErrorMessage (RemoteError ''connection lost''))) cancelled_future)
        cancelled_future ''pool'' (HasActorMessage 7 main_actor) world0)
     = Inl (RemoteError ''connection lost'')"
  by (simp add: wait_def cancelled_future_def sample_env_def world0_def cancel_def io_defs)

text \<open>
  C2 (as amended). A waited \<open>send\<close> that passes the cycle check and is dispatched ends
  as follows. When the shielded wait is not cancelled, or it is cancelled and the cancel RPC
  returns normally, \<open>_wait\<close> ends by awaiting the original handle and the caller gets what
  the handle holds: a result it holds is returned. When the cancel RPC fails with
  \<open>CannotCancelTask\<close> the caller gets \<open>CancelledError\<close>, whatever the handle holds, and
  any other failure of the cancel RPC propagates.
\<close>

theorem send_result_wins:
  assumes "detect_cycle_send E (SendMessage (next_id w) ref msg pc) True = None"
    and "caller_future E (PStr (address ref)) (SendMessage (next_id w) ref msg pc) = Inr fut"
  shows "fst (send E ref msg True pc w) =
     (let delivered = (case final_wait fut of
                         Inl e \<Rightarrow> Inl e
                       | Inr (ResultMessage v) \<Rightarrow> Inr (Value v)
                       | Inr (ErrorMessage e) \<Rightarrow> Inl e)
      in if shield_wait fut = Inl CancelledError
         then (case caller_call E (PStr (address ref))
                      (CancelMessage (Suc (next_id w)) (address ref) (next_id w)) of
                 Inr (ResultMessage r) \<Rightarrow> delivered
               | Inr (ErrorMessage e) \<Rightarrow> Inl (if e = CannotCancelTask then CancelledError else e)
               | Inl e \<Rightarrow> Inl (if e = CannotCancelTask then CancelledError else e))
         else delivered)"
  using assms
  by (cases "shield_wait fut")
     (auto simp: send_def wait_def cancel_def io_defs Let_def
        split: prod.splits sum.splits reply.splits)

theorem send_result_wins_witness:
  "fst (send (sample_env (Inr (ResultMessage PNone)) cancelled_future) main_actor sample_content
         True None world0) = Inr (Value (PNum 42))
   \<and> fst (send (sample_env (Inl (RemoteError ''connection lost'')) cancelled_future) main_actor
         sample_content True None world0) = Inl (RemoteError ''connection lost'')
   \<and> fst (send (sample_env (Inr (ErrorMessage CannotCancelTask)) (resolved_future (PNum 7)))
         main_actor sample_content True None world0) = Inr (Value (PNum 7))"
  using send_result_wins [of "sample_env (Inr (ResultMessage PNone)) cancelled_future" world0
      main_actor sample_content None cancelled_future]
    send_result_wins [of "sample_env (Inl (RemoteError ''connection lost'')) cancelled_future"
      world0 main_actor sample_content None cancelled_future]
    send_result_wins [of "sample_env (Inr (ErrorMessage CannotCancelTask)) (resolved_future (PNum 7))"
      world0 main_actor sample_content None "resolved_future (PNum 7)"]
  by (simp add: cancelled_future_def resolved_future_def sample_env_def world0_def main_actor_def)

text \<open>
  C2 as stated fails: when the remote side answers the cancel RPC with
  \<open>CannotCancelTask\<close> (the call had already finished), the caller gets
  \<open>CancelledError\<close> although the handle holds the result.
\<close>

theorem send_result_wins_counterexample:
  "final_wait cancelled_future = Inr (ResultMessage (PNum 42))
   \<and> fst (send (sample_env (Inr (ErrorMessage CannotCancelTask)) cancelled_future) main_actor
         sample_content True None world0) = Inl CancelledError"
  by (simp add: send_def wait_def cancelled_future_def sample_env_def world0_def cancel_def
      main_actor_def io_defs Let_def)

lemma actor_ref_no_stop:
  "filter (is_stop \<circ> snd) (sent (snd (actor_ref E ref w))) = filter (is_stop \<circ> snd) (sent w)"
  by (auto simp: actor_ref_def wait_def cancel_def io_defs Let_def
      split: option.splits prod.splits sum.splits reply.splits)

text \<open>
  C3 (as amended). When the \<open>get_config\<close> query answers \<open>main\<close> and the reference
  resolves to an actor whose address is \<open>main\<close>, \<open>kill_actor\<close> raises
  \<open>ValueError\<close> for every value of \<open>force\<close>, right after the resolution: no
  \<open>stop\<close> control message is issued.
\<close>

theorem kill_actor_main_pool:
  assumes "caller_call E (PStr (address ref))
             (ControlMessage (next_id w) (address ref) get_config (PStr ''main_pool_address''))
           = Inr (ResultMessage (PStr main))"
    and "actor_ref E ref
           (w\<lparr>next_id := Suc (next_id w),
              sent := sent w @ [(PStr (address ref),
                ControlMessage (next_id w) (address ref) get_config (PStr ''main_pool_address''))]\<rparr>)
         = (Inr (PRef real_ref), w')"
    and "address real_ref = main"
  shows "kill_actor E ref force w = (Inl (ValueError ''Cannot kill actor on main pool''), w')
       \<and> filter (is_stop \<circ> snd) (sent w') = filter (is_stop \<circ> snd) (sent w)"
proof -
  let ?w1 = "w\<lparr>next_id := Suc (next_id w),
              sent := sent w @ [(PStr (address ref),
                ControlMessage (next_id w) (address ref) get_config (PStr ''main_pool_address''))]\<rparr>"
  have "kill_actor E ref force w = (Inl (ValueError ''Cannot kill actor on main pool''), w')"
    using assms by (simp add: kill_actor_def get_address_def io_defs Let_def)
  moreover have "filter (is_stop \<circ> snd) (sent w') = filter (is_stop \<circ> snd) (sent ?w1)"
    using actor_ref_no_stop [of E ref ?w1] assms(2) by simp
  ultimately show ?thesis by simp
qed

theorem kill_actor_main_pool_witness:
  "kill_actor (sample_env (Inr (ResultMessage PNone)) (resolved_future (PRef main_actor)))
     main_actor False world0
   = (Inl (ValueError ''Cannot kill actor on main pool''),
      \<lparr>sent = [(PStr ''main'', ControlMessage 0 ''main'' get_config (PStr ''main_pool_address'')),
               (PStr ''main'', ActorRefMessage 1 main_actor)],
       next_id = 2\<rparr>)"
proof -
  let ?E = "sample_env (Inr (ResultMessage PNone)) (resolved_future (PRef main_actor))"
  let ?w' = "\<lparr>sent = [(PStr ''main'', ControlMessage 0 ''main'' get_config (PStr ''main_pool_address'')),
               (PStr ''main'', ActorRefMessage 1 main_actor)],
       next_id = 2\<rparr>"
  have h1: "caller_call ?E (PStr (address main_actor))
             (ControlMessage (next_id world0) (address main_actor) get_config (PStr ''main_pool_address''))
           = Inr (ResultMessage (PStr ''main''))"
    by (simp add: sample_env_def)
  have h2: "actor_ref ?E main_actor
           (world0\<lparr>next_id := Suc (next_id world0),
              sent := sent world0 @ [(PStr (address main_actor),
                ControlMessage (next_id world0) (address main_actor) get_config (PStr ''main_pool_address''))]\<rparr>)
         = (Inr (PRef main_actor), ?w')"
    by (simp add: actor_ref_def wait_def sample_env_def resolved_future_def world0_def main_actor_def
        io_defs Let_def)
  have h3: "address main_actor = ''main''" by (simp add: main_actor_def)
  show ?thesis using kill_actor_main_pool [OF h1 h2 h3, of False] by simp
qed

text \<open>
  C3 as stated fails: the refusal is not local, the \<open>get_config\<close> query and the
  reference lookup are issued before it.
\<close>

theorem kill_actor_local_counterexample:
  "fst (kill_actor (sample_env (Inr (ResultMessage PNone)) (resolved_future (PRef main_actor)))
     main_actor True world0) = Inl (ValueError ''Cannot kill actor on main pool'')
   \<and> sent world0 = []
   \<and> sent (snd (kill_actor (sample_env (Inr (ResultMessage PNone)) (resolved_future (PRef main_actor)))
     main_actor True world0))
     = [(PStr ''main'', ControlMessage 0 ''main'' get_config (PStr ''main_pool_address'')),
        (PStr ''main'', ActorRefMessage 1 main_actor)]"
  by (simp add: kill_actor_def get_address_def actor_ref_def wait_def sample_env_def
      resolved_future_def world0_def main_actor_def io_defs Let_def)

text \<open>
  C7 (as amended). With the main address supplied and equal to the address,
  \<open>wait_actor_pool_recovered\<close> returns at once and changes nothing; with the main address
  fetched and equal to the address, it returns after the one \<open>get_config\<close> query, which is
  its only effect: no \<open>wait_pool_recovered\<close> message is issued.
\<close>

theorem wait_actor_pool_recovered_main:
  "wait_actor_pool_recovered E a (Some a) w = (Inr (), w)
   \<and> (caller_call E (PStr a) (ControlMessage (next_id w) a get_config (PStr ''main_pool_address''))
        = Inr (ResultMessage (PStr a))
      \<longrightarrow> wait_actor_pool_recovered E a None w
          = (Inr (), w\<lparr>next_id := Suc (next_id w),
                        sent := sent w @ [(PStr a,
                          ControlMessage (next_id w) a get_config (PStr ''main_pool_address''))]\<rparr>))"
  by (simp add: wait_actor_pool_recovered_def io_defs)

theorem wait_actor_pool_recovered_main_witness:
  "wait_actor_pool_recovered (sample_env (Inr (ResultMessage PNone)) cancelled_future)
      ''main'' (Some ''main'') world0 = (Inr (), world0)
   \<and> wait_actor_pool_recovered (sample_env (Inr (ResultMessage PNone)) cancelled_future)
      ''main'' None world0
     = (Inr (), \<lparr>sent = [(PStr ''main'',
                   ControlMessage 0 ''main'' get_config (PStr ''main_pool_address''))],
                 next_id = 1\<rparr>)"
  using wait_actor_pool_recovered_main [of "sample_env (Inr (ResultMessage PNone)) cancelled_future"
      "''main''" world0]
  by (simp add: sample_env_def world0_def)

text \<open>
  C7 as stated fails in the fetched case: the \<open>get_config\<close> query is dispatched, so not
  all state is left as it was.
\<close>

theorem wait_actor_pool_recovered_fetch_counterexample:
  "fst (wait_actor_pool_recovered (sample_env (Inr (ResultMessage PNone)) cancelled_future)
      ''main'' None world0) = Inr ()
   \<and> sent world0 = []
   \<and> sent (snd (wait_actor_pool_recovered (sample_env (Inr (ResultMessage PNone)) cancelled_future)
      ''main'' None world0))
     = [(PStr ''main'', ControlMessage 0 ''main'' get_config (PStr ''main_pool_address''))]"
  by (simp add: wait_actor_pool_recovered_def sample_env_def world0_def io_defs)

subsection \<open>The heap queue\<close>

declare siftdown.simps [simp del] bubble_up.simps [simp del]

lemma siftdown_stop:
  "\<not> (startpos < pos \<and> pos < length heap) \<Longrightarrow> siftdown lt heap startpos pos = (None, heap)"
  by (subst siftdown.simps) auto












subsection \<open>Call statistics\<close>

lemma threshold_default:
  "slow_calls_duration_threshold cpython [] = Inr (Some 1)"
  by (simp add: slow_calls_duration_threshold_def descriptor_get_def cpython_def cpython_with_def)

lemma threshold_zero:
  "slow_calls_duration_threshold cpython [(''slow_calls_duration_threshold'', PNum 0)] = Inr (Some 0)"
  by (simp add: slow_calls_duration_threshold_def descriptor_get_def cpython_def cpython_with_def)

lemma key_lt_slow_key: "key_lt P (slow_key a) (slow_key b) = Inr (a < b)"
  by (cases "a = b")
     (simp_all add: key_lt_def key_val_def slow_key_def content_val_def run_content_def)

lemma run_content_name: "method_name (run_content kw) = ''run''"
  by (simp add: run_content_def)

text \<open>
  C4, at a failing input. The slow-call list holds ten entries with durations 1 to 10 and
  the threshold is 0. A call of duration 1/2 ranks below the current minimum, so the set
  should stay as it is; \<open>heapreplace\<close> evicts the minimum all the same and the slower call
  of duration 1 is lost.
\<close>

theorem collect_replaces_slower_call:
  "length (slow_calls full_stats) = 10
   \<and> key_lt cpython (slow_key (1/2)) (hd (slow_calls full_stats)) = Inr True
   \<and> collect cpython full_stats (run_message []) (1/2)
     = (None, full_stats\<lparr>call_counter := [((''actor'', ''run''), 11)],
                         slow_calls := map slow_key [1/2, 2, 3, 4, 5, 6, 7, 8, 9, 10]\<rparr>)"
proof -
  have k: "(1/2, ''actor'', ''main'', run_content []) = slow_key (1/2)"
    by (simp add: slow_key_def)
  have h: "heapreplace (key_lt cpython) (map slow_key [1, 2, 3, 4, 5, 6, 7, 8, 9, 10]) (slow_key (1/2))
           = (None, map slow_key [1/2, 2, 3, 4, 5, 6, 7, 8, 9, 10])"
    by (simp add: heapreplace_def siftup_def smaller_child_def bubble_up.simps siftdown.simps
        key_lt_slow_key)
  show ?thesis
    by (simp add: collect_def full_stats_def run_message_def main_actor_def counter_inc_def
        threshold_zero k h [simplified] key_lt_slow_key run_content_name Let_def)
qed

text \<open>
  C5, at a failing input. The slow-call list holds one entry, and the call collected has
  the same duration, uid, address, method and arguments but other keyword arguments: the
  comparison of the two tuples ends at two unequal dicts and raises \<open>TypeError\<close>. The
  sample should be dropped and the list stay as it was; \<open>heappush\<close> has appended the
  sample before it compares, so the error is absorbed with the sample left in the list.
\<close>

theorem collect_unorderable_not_dropped:
  "key_lt cpython (1, ''actor'', ''main'', run_content [(''k'', PNum 1)]) (slow_key 1)
     = Inl TypeError
   \<and> slow_calls one_stats = [slow_key 1]
   \<and> collect cpython one_stats (run_message [(''k'', PNum 1)]) 1
     = (None, one_stats\<lparr>call_counter := [((''actor'', ''run''), 2)],
          slow_calls := [slow_key 1, (1, ''actor'', ''main'', run_content [(''k'', PNum 1)])]\<rparr>)"
proof -
  have k: "key_lt cpython (1, ''actor'', ''main'', run_content [(''k'', PNum 1)]) (slow_key 1)
           = Inl TypeError"
    by (simp add: key_lt_def key_val_def content_val_def slow_key_def run_content_def)
  have h: "heappush (key_lt cpython) [slow_key 1]
             (1, ''actor'', ''main'', run_content [(''k'', PNum 1)])
           = (Some TypeError, [slow_key 1, (1, ''actor'', ''main'', run_content [(''k'', PNum 1)])])"
    by (simp add: heappush_def siftdown.simps k)
  show ?thesis
    using k
    by (simp add: collect_def one_stats_def run_message_def main_actor_def counter_inc_def
        threshold_default run_content_name Let_def h)
qed







lemma debug_interval_default: "debug_interval_seconds cpython [] = Inr None"
  by (simp add: debug_interval_seconds_def descriptor_get_def cpython_def cpython_with_def)

lemma options_none: "ProfilingOptions P PNone = Inr []"
  by (simp add: ProfilingOptions_def)









subsection \<open>The profiling registry\<close>

lemma collect_each_keys:
  "map fst (snd (collect_each P message duration xs)) = map fst xs"
  by (induction xs) (auto split: prod.splits option.splits)

lemma update_dom: "fst ` set (AList.update k v al) = insert k (fst ` set al)"
  by (induction al) auto

lemma delete_dom: "fst ` set (AList.delete k al) = fst ` set al - {k}"
  by (induction al) auto

lemma init_result:
  "snd (init P task a reg) = reg
   \<or> (\<exists>opts. snd (init P task a reg)
         = reg\<lparr>data := AList.update task new_tree (data reg),
               call_stats := AList.update task
                 \<lparr>options = opts, call_counter = [], slow_calls = []\<rparr> (call_stats reg)\<rparr>)
   \<or> (\<exists>opts. snd (init P task a reg)
         = reg\<lparr>data := AList.update task new_tree (data reg),
               call_stats := AList.update task
                 \<lparr>options = opts, call_counter = [], slow_calls = []\<rparr> (call_stats reg),
               debug_task := AList.update task (next_task reg) (debug_task reg),
               next_task := Suc (next_task reg)\<rparr>)"
proof (cases "ProfilingOptions P a")
  case (Inl e)
  then show ?thesis by (simp add: init_def)
next
  case (Inr opts)
  show ?thesis
  proof (cases "debug_interval_seconds P opts")
    case (Inl e)
    with Inr show ?thesis by (simp add: init_def)
  next
    case i: (Inr interval)
    show ?thesis
    proof (cases interval)
      case None
      with Inr i show ?thesis by (simp add: init_def Let_def) blast
    next
      case (Some x)
      with Inr i show ?thesis by (cases "running_loop P") (simp add: init_def Let_def, blast)+
    qed
  qed
qed

lemma pop_result:
  "data (snd (pop P task reg)) = AList.delete task (data reg)
   \<and> debug_task (snd (pop P task reg)) = AList.delete task (debug_task reg)
   \<and> (call_stats (snd (pop P task reg)) = call_stats reg
      \<or> call_stats (snd (pop P task reg)) = AList.delete task (call_stats reg))"
  by (simp add: pop_def Let_def split: option.splits sum.splits)

lemma collect_actor_call_result:
  "data (snd (collect_actor_call P message duration reg)) = data reg
   \<and> debug_task (snd (collect_actor_call P message duration reg)) = debug_task reg
   \<and> fst ` set (call_stats (snd (collect_actor_call P message duration reg)))
       = fst ` set (call_stats reg)"
proof (cases "collect_each P message duration (call_stats reg)")
  case (Pair raised stats)
  with collect_each_keys [of P message duration "call_stats reg"]
  have "map fst stats = map fst (call_stats reg)" by simp
  then have "set (map fst stats) = set (map fst (call_stats reg))" by simp
  then have "fst ` set stats = fst ` set (call_stats reg)" by simp
  with Pair show ?thesis by (simp add: collect_actor_call_def)
qed

lemma reachable_keys:
  "reachable P reg \<Longrightarrow>
     fst ` set (debug_task reg) \<subseteq> fst ` set (data reg)
     \<and> fst ` set (data reg) \<subseteq> fst ` set (call_stats reg)"
proof (induction rule: reachable.induct)
  case reachable_empty
  show ?case by (simp add: empty_registry_def)
next
  case (reachable_init reg task options_arg)
  from init_result [of P task options_arg reg] reachable_init.IH show ?case
    by (elim disjE exE) (auto simp: update_dom)
next
  case (reachable_pop reg task)
  from pop_result [of P task reg] reachable_pop.IH show ?case
    by (elim conjE disjE) (auto simp: delete_dom)
next
  case (reachable_collect reg message duration)
  from collect_actor_call_result [of P message duration reg] reachable_collect.IH show ?case
    by (elim conjE) simp
next
  case (reachable_debug_done reg task)
  from reachable_debug_done.IH show ?case
    by (auto simp: debug_done_def delete_dom)
next
  case (reachable_mutate reg task t)
  then show ?case by (auto simp: update_dom)
qed

lemma pop_unknown:
  assumes "reachable P reg" and "map_of (data reg) task = None"
  shows "pop P task reg = (Inr None, reg)"
proof -
  from assms(2) have nd: "task \<notin> fst ` set (data reg)"
    by (simp add: map_of_eq_None_iff)
  with reachable_keys [OF assms(1)] have ndb: "task \<notin> fst ` set (debug_task reg)" by auto
  then have "map_of (debug_task reg) task = None" by (simp add: map_of_eq_None_iff)
  with nd ndb assms(2) show ?thesis by (simp add: pop_def)
qed

lemma to_dict_shape:
  "to_dict P stats = Inr snapshot \<Longrightarrow>
   \<exists>most slow. snapshot = [(''most_calls'', Node most), (''slow_calls'', Node slow)]"
  by (auto simp: to_dict_def split: sum.splits)

lemma merge_snapshot:
  "map_of (dict_update r [(''most_calls'', m), (''slow_calls'', s)]) k
   = (if k = ''slow_calls'' then Some s else if k = ''most_calls'' then Some m else map_of r k)"
  by (simp add: dict_update_def update_conv')

text \<open>
  C9 (as amended). In every registry state reached through \<open>init\<close>, \<open>pop\<close>,
  \<open>collect_actor_call\<close>, the completion of debug tasks and updates of a registered tree:
  \<open>pop\<close> of a registered task removes the task from the three dictionaries and cancels the
  debug task registered for it, if there is one, and no other. Then, if \<open>to_dict\<close> raises,
  that error propagates, the entries being gone; otherwise the result is the tree of the
  task in which \<open>most_calls\<close> and \<open>slow_calls\<close> are the two entries of the snapshot and
  every other key is as it was. \<open>pop\<close> of a task that is not registered returns \<open>None\<close>
  and leaves the registry as it is, and a second \<open>pop\<close> of the same id is such a call.
\<close>

theorem pop_semantics:
  assumes "reachable P reg"
  shows "(case map_of (data reg) task of
            None \<Rightarrow> pop P task reg = (Inr None, reg)
          | Some r \<Rightarrow>
              (\<exists>stats. map_of (call_stats reg) task = Some stats
                 \<and> snd (pop P task reg)
                   = reg\<lparr>debug_task := AList.delete task (debug_task reg),
                         cancelled := cancelled reg @
                           (case map_of (debug_task reg) task of None \<Rightarrow> [] | Some h \<Rightarrow> [h]),
                         data := AList.delete task (data reg),
                         call_stats := AList.delete task (call_stats reg)\<rparr>
                 \<and> (case to_dict P stats of
                      Inl e \<Rightarrow> fst (pop P task reg) = Inl e
                    | Inr snapshot \<Rightarrow>
                        (\<exists>r' most slow.
                           fst (pop P task reg) = Inr (Some r')
                           \<and> snapshot = [(''most_calls'', Node most), (''slow_calls'', Node slow)]
                           \<and> map_of r' ''most_calls'' = Some (Node most)
                           \<and> map_of r' ''slow_calls'' = Some (Node slow)
                           \<and> (\<forall>k. k \<noteq> ''most_calls'' \<and> k \<noteq> ''slow_calls''
                                  \<longrightarrow> map_of r' k = map_of r k)))))
       \<and> pop P task (snd (pop P task reg)) = (Inr None, snd (pop P task reg))"
proof (intro conjI)
  show "case map_of (data reg) task of
            None \<Rightarrow> pop P task reg = (Inr None, reg)
          | Some r \<Rightarrow>
              (\<exists>stats. map_of (call_stats reg) task = Some stats
                 \<and> snd (pop P task reg)
                   = reg\<lparr>debug_task := AList.delete task (debug_task reg),
                         cancelled := cancelled reg @
                           (case map_of (debug_task reg) task of None \<Rightarrow> [] | Some h \<Rightarrow> [h]),
                         data := AList.delete task (data reg),
                         call_stats := AList.delete task (call_stats reg)\<rparr>
                 \<and> (case to_dict P stats of
                      Inl e \<Rightarrow> fst (pop P task reg) = Inl e
                    | Inr snapshot \<Rightarrow>
                        (\<exists>r' most slow.
                           fst (pop P task reg) = Inr (Some r')
                           \<and> snapshot = [(''most_calls'', Node most), (''slow_calls'', Node slow)]
                           \<and> map_of r' ''most_calls'' = Some (Node most)
                           \<and> map_of r' ''slow_calls'' = Some (Node slow)
                           \<and> (\<forall>k. k \<noteq> ''most_calls'' \<and> k \<noteq> ''slow_calls''
                                  \<longrightarrow> map_of r' k = map_of r k))))"
  proof (cases "map_of (data reg) task")
    case None
    then show ?thesis using pop_unknown [OF assms] by simp
  next
    case (Some r)
    then have "task \<in> fst ` set (data reg)"
      by (metis map_of_eq_None_iff option.distinct(1))
    with reachable_keys [OF assms] have "task \<in> fst ` set (call_stats reg)" by auto
    then obtain stats where s: "map_of (call_stats reg) task = Some stats"
      by (metis map_of_eq_None_iff not_Some_eq)
    have w: "snd (pop P task reg)
             = reg\<lparr>debug_task := AList.delete task (debug_task reg),
                   cancelled := cancelled reg @
                     (case map_of (debug_task reg) task of None \<Rightarrow> [] | Some h \<Rightarrow> [h]),
                   data := AList.delete task (data reg),
                   call_stats := AList.delete task (call_stats reg)\<rparr>"
      using Some s by (simp add: pop_def Let_def split: option.splits sum.splits)
    have v: "case to_dict P stats of
               Inl e \<Rightarrow> fst (pop P task reg) = Inl e
             | Inr snapshot \<Rightarrow>
                 (\<exists>r' most slow.
                    fst (pop P task reg) = Inr (Some r')
                    \<and> snapshot = [(''most_calls'', Node most), (''slow_calls'', Node slow)]
                    \<and> map_of r' ''most_calls'' = Some (Node most)
                    \<and> map_of r' ''slow_calls'' = Some (Node slow)
                    \<and> (\<forall>k. k \<noteq> ''most_calls'' \<and> k \<noteq> ''slow_calls''
                           \<longrightarrow> map_of r' k = map_of r k))"
    proof (cases "to_dict P stats")
      case (Inl e)
      with Some s show ?thesis by (simp add: pop_def Let_def split: option.splits)
    next
      case (Inr snapshot)
      from to_dict_shape [OF Inr] obtain most slow where
        sh: "snapshot = [(''most_calls'', Node most), (''slow_calls'', Node slow)]" by blast
      have "fst (pop P task reg) = Inr (Some (dict_update r snapshot))"
        using Some s Inr by (simp add: pop_def Let_def split: option.splits)
      with sh Inr show ?thesis by (simp add: merge_snapshot)
    qed
    from Some s w v show ?thesis by simp
  qed
  have "reachable P (snd (pop P task reg))" using assms by (rule reachable_pop)
  moreover have "map_of (data (snd (pop P task reg))) task = None"
    using pop_result [of P task reg] by (simp add: delete_conv')
  ultimately show "pop P task (snd (pop P task reg)) = (Inr None, snd (pop P task reg))"
    by (rule pop_unknown)
qed

lemma init_debug_sample:
  "init cpython ''job'' (PDict [(''debug_interval_seconds'', PNum 5)]) reg
   = (None, reg\<lparr>data := AList.update ''job'' new_tree (data reg),
                 call_stats := AList.update ''job''
                   \<lparr>options = [(''debug_interval_seconds'', PNum 5)],
                    call_counter = [], slow_calls = []\<rparr> (call_stats reg),
                 debug_task := AList.update ''job'' (next_task reg) (debug_task reg),
                 next_task := Suc (next_task reg)\<rparr>)"
  by (simp add: init_def ProfilingOptions_def class_dict_keys_def debug_interval_seconds_def
      descriptor_get_def cpython_def cpython_with_def)

lemma threshold_debug:
  "slow_calls_duration_threshold cpython [(''debug_interval_seconds'', PNum 5)] = Inr (Some 1)"
  by (simp add: slow_calls_duration_threshold_def descriptor_get_def cpython_def cpython_with_def)

lemma profiled_registry_eq:
  "profiled_registry =
     \<lparr>data = [(''job'', new_tree)], call_stats = [(''job'', profiled_stats)],
      debug_task = [(''job'', 0)], cancelled = [], next_task = Suc 0\<rparr>"
  by (simp add: profiled_registry_def init_debug_sample empty_registry_def
      collect_actor_call_def call_message_def collect_def threshold_debug counter_inc_def
      main_actor_def heappush_def siftdown.simps key_lt_def key_val_def content_val_def Let_def
      profiled_stats_def)

lemma decode_actor: "decode_utf8 cpython ''actor'' = Inr ''actor''"
  by (simp add: cpython_def cpython_with_def)

lemma str_empty:
  "py_str cpython (PTuple []) = Inr ''()''" "py_str cpython (PDict []) = Inr ''{}''"
  by (simp_all add: cpython_def cpython_with_def)

lemma profiled_to_dict:
  "to_dict cpython profiled_stats
   = Inr [(''most_calls'', Node [(''actor.run'', Leaf (PNum 1)), (''actor.stop'', Leaf (PNum 1))]),
          (''slow_calls'', Node [(''[main]actor.run(args=(), kwargs={})'', Leaf (PNum 3)),
                                 (''[main]actor.stop(args=(), kwargs={})'', Leaf (PNum 2))])]"
  by (simp add: to_dict_def most_common_def decode_actor profiled_stats_def str_empty)

theorem pop_semantics_witness:
  "(\<exists>r'. fst (pop cpython ''job'' profiled_registry) = Inr (Some r')
        \<and> map_of r' ''most_calls''
            = Some (Node [(''actor.run'', Leaf (PNum 1)), (''actor.stop'', Leaf (PNum 1))])
        \<and> map_of r' ''slow_calls''
            = Some (Node [(''[main]actor.run(args=(), kwargs={})'', Leaf (PNum 3)),
                          (''[main]actor.stop(args=(), kwargs={})'', Leaf (PNum 2))])
        \<and> map_of r' ''general'' = Some (Node []))
   \<and> snd (pop cpython ''job'' profiled_registry) = empty_registry\<lparr>cancelled := [0], next_task := 1\<rparr>
   \<and> pop cpython ''job'' (snd (pop cpython ''job'' profiled_registry))
     = (Inr None, empty_registry\<lparr>cancelled := [0], next_task := 1\<rparr>)
   \<and> pop cpython ''other'' profiled_registry = (Inr None, profiled_registry)"
proof -
  have r: "reachable cpython profiled_registry"
    unfolding profiled_registry_def
    by (intro reachable_collect reachable_init reachable_empty)
  have d: "map_of (data profiled_registry) ''job'' = Some new_tree"
    by (simp add: profiled_registry_eq)
  have cs: "map_of (call_stats profiled_registry) ''job'' = Some profiled_stats"
    by (simp add: profiled_registry_eq)
  have o: "map_of (data profiled_registry) ''other'' = None"
    by (simp add: profiled_registry_eq)
  note p = pop_semantics [OF r, of "''job''"]
  note q = p [THEN conjunct1, unfolded d option.case]
  from q obtain stats where s: "map_of (call_stats profiled_registry) ''job'' = Some stats"
    and w: "snd (pop cpython ''job'' profiled_registry)
         = profiled_registry\<lparr>debug_task := AList.delete ''job'' (debug_task profiled_registry),
             cancelled := cancelled profiled_registry @
               (case map_of (debug_task profiled_registry) ''job'' of None \<Rightarrow> [] | Some h \<Rightarrow> [h]),
             data := AList.delete ''job'' (data profiled_registry),
             call_stats := AList.delete ''job'' (call_stats profiled_registry)\<rparr>"
    and v: "case to_dict cpython stats of
              Inl e \<Rightarrow> fst (pop cpython ''job'' profiled_registry) = Inl e
            | Inr snapshot \<Rightarrow>
                (\<exists>r' most slow.
                   fst (pop cpython ''job'' profiled_registry) = Inr (Some r')
                   \<and> snapshot = [(''most_calls'', Node most), (''slow_calls'', Node slow)]
                   \<and> map_of r' ''most_calls'' = Some (Node most)
                   \<and> map_of r' ''slow_calls'' = Some (Node slow)
                   \<and> (\<forall>k. k \<noteq> ''most_calls'' \<and> k \<noteq> ''slow_calls''
                          \<longrightarrow> map_of r' k = map_of new_tree k))"
    by (elim exE conjE) (rule that)
  from s cs have st: "stats = profiled_stats" by simp
  from v [unfolded st profiled_to_dict sum.case] obtain r' most slow where f: "fst (pop cpython ''job'' profiled_registry) = Inr (Some r')"
    and sn: "[(''most_calls'', Node [(''actor.run'', Leaf (PNum 1)), (''actor.stop'', Leaf (PNum 1))]),
              (''slow_calls'', Node [(''[main]actor.run(args=(), kwargs={})'', Leaf (PNum 3)),
                                     (''[main]actor.stop(args=(), kwargs={})'', Leaf (PNum 2))])]
             = [(''most_calls'', Node most), (''slow_calls'', Node slow)]"
    and m1: "map_of r' ''most_calls'' = Some (Node most)"
    and m2: "map_of r' ''slow_calls'' = Some (Node slow)"
    and m3: "\<forall>k. k \<noteq> ''most_calls'' \<and> k \<noteq> ''slow_calls''
                \<longrightarrow> map_of r' k = map_of new_tree k"
    by (elim exE conjE) (rule that)
  from sn have e1: "most = [(''actor.run'', Leaf (PNum 1)), (''actor.stop'', Leaf (PNum 1))]"
    and e2: "slow = [(''[main]actor.run(args=(), kwargs={})'', Leaf (PNum 3)),
                     (''[main]actor.stop(args=(), kwargs={})'', Leaf (PNum 2))]"
    by simp_all
  have n: "''general'' \<noteq> ''most_calls'' \<and> ''general'' \<noteq> ''slow_calls''" by simp
  have "map_of r' ''general'' = map_of new_tree ''general''"
    by (rule m3 [rule_format, OF n])
  then have m4: "map_of r' ''general'' = Some (Node [])" by (simp add: new_tree_def)
  have a: "\<exists>r'. fst (pop cpython ''job'' profiled_registry) = Inr (Some r')
        \<and> map_of r' ''most_calls''
            = Some (Node [(''actor.run'', Leaf (PNum 1)), (''actor.stop'', Leaf (PNum 1))])
        \<and> map_of r' ''slow_calls''
            = Some (Node [(''[main]actor.run(args=(), kwargs={})'', Leaf (PNum 3)),
                          (''[main]actor.stop(args=(), kwargs={})'', Leaf (PNum 2))])
        \<and> map_of r' ''general'' = Some (Node [])"
    by (rule exI [of _ r']) (rule conjI [OF f conjI [OF m1 [unfolded e1] conjI [OF m2 [unfolded e2] m4]]])
  have w': "snd (pop cpython ''job'' profiled_registry)
            = empty_registry\<lparr>cancelled := [0], next_task := 1\<rparr>"
    unfolding w by (simp add: profiled_registry_eq empty_registry_def)
  have b: "pop cpython ''job'' (snd (pop cpython ''job'' profiled_registry))
     = (Inr None, snd (pop cpython ''job'' profiled_registry))"
    by (rule p [THEN conjunct2])
  have c: "pop cpython ''other'' profiled_registry = (Inr None, profiled_registry)"
    using pop_semantics [OF r, of "''other''", THEN conjunct1] unfolding o option.case .
  have b': "pop cpython ''job'' (snd (pop cpython ''job'' profiled_registry))
     = (Inr None, empty_registry\<lparr>cancelled := [0], next_task := 1\<rparr>)"
    using b by (simp only: w')
  show ?thesis by (rule conjI [OF a conjI [OF w' conjI [OF b' c]]])
qed

text \<open>
  C9 as stated fails: a slow call whose content is shorter than the four items that
  \<open>to_dict\<close> unpacks makes \<open>pop\<close> raise after the entries have been removed; and of two
  debug tasks started by two \<open>init\<close> calls for the same id, \<open>pop\<close> cancels the second
  only, the first being registered no more.
\<close>

theorem pop_raises_counterexample:
  "map_of (data (snd (collect_actor_call cpython (call_message ''run'' [PDict []]) 2
        (snd (init cpython ''job'' PNone empty_registry))))) ''job'' = Some new_tree
   \<and> pop cpython ''job''
       (snd (collect_actor_call cpython (call_message ''run'' [PDict []]) 2
          (snd (init cpython ''job'' PNone empty_registry))))
     = (Inl (ValueError ''wrong number of values to unpack''), empty_registry)
   \<and> next_task (snd (init cpython ''job'' (PDict [(''debug_interval_seconds'', PNum 5)])
        (snd (init cpython ''job'' (PDict [(''debug_interval_seconds'', PNum 5)])
           empty_registry)))) = 2
   \<and> cancelled (snd (pop cpython ''job''
        (snd (init cpython ''job'' (PDict [(''debug_interval_seconds'', PNum 5)])
          (snd (init cpython ''job'' (PDict [(''debug_interval_seconds'', PNum 5)])
             empty_registry)))))) = [1]"
proof -
  have i: "init cpython ''job'' PNone empty_registry
           = (None, \<lparr>data = [(''job'', new_tree)],
                call_stats = [(''job'', \<lparr>options = [], call_counter = [], slow_calls = []\<rparr>)],
                debug_task = [], cancelled = [], next_task = 0\<rparr>)"
    by (simp add: init_def options_none debug_interval_default empty_registry_def)
  have c: "collect cpython \<lparr>options = [], call_counter = [], slow_calls = []\<rparr>
             (call_message ''run'' [PDict []]) 2
           = (None, \<lparr>options = [], call_counter = [((''actor'', ''run''), Suc 0)],
                slow_calls = [(2, ''actor'', ''main'',
                   \<lparr>method_name = ''run'', rest_items = [PDict []]\<rparr>)]\<rparr>)"
    by (simp add: collect_def call_message_def threshold_default counter_inc_def heappush_def
        siftdown_stop main_actor_def Let_def)
  have t: "to_dict cpython \<lparr>options = [], call_counter = [((''actor'', ''run''), Suc 0)],
                slow_calls = [(2, ''actor'', ''main'',
                   \<lparr>method_name = ''run'', rest_items = [PDict []]\<rparr>)]\<rparr>
           = Inl (ValueError ''wrong number of values to unpack'')"
    by (simp add: to_dict_def most_common_def decode_actor)
  have m: "call_of (call_message ''run'' [PDict []]) \<noteq> None" by (simp add: call_message_def)
  have r1: "snd (collect_actor_call cpython (call_message ''run'' [PDict []]) 2
          (snd (init cpython ''job'' PNone empty_registry)))
        = \<lparr>data = [(''job'', new_tree)],
            call_stats = [(''job'', \<lparr>options = [], call_counter = [((''actor'', ''run''), Suc 0)],
                slow_calls = [(2, ''actor'', ''main'',
                   \<lparr>method_name = ''run'', rest_items = [PDict []]\<rparr>)]\<rparr>)],
            debug_task = [], cancelled = [], next_task = 0\<rparr>"
    using m by (auto simp add: i c collect_actor_call_def)
  have p1: "pop cpython ''job''
       \<lparr>data = [(''job'', new_tree)],
            call_stats = [(''job'', \<lparr>options = [], call_counter = [((''actor'', ''run''), Suc 0)],
                slow_calls = [(2, ''actor'', ''main'',
                   \<lparr>method_name = ''run'', rest_items = [PDict []]\<rparr>)]\<rparr>)],
            debug_task = [], cancelled = [], next_task = 0\<rparr>
     = (Inl (ValueError ''wrong number of values to unpack''), empty_registry)"
    by (simp add: pop_def t Let_def empty_registry_def)
  have e: "to_dict cpython \<lparr>options = [(''debug_interval_seconds'', PNum 5)],
                call_counter = [], slow_calls = []\<rparr>
           = Inr [(''most_calls'', Node []), (''slow_calls'', Node [])]"
    by (simp add: to_dict_def most_common_def)
  have i2: "snd (init cpython ''job'' (PDict [(''debug_interval_seconds'', PNum 5)])
        (snd (init cpython ''job'' (PDict [(''debug_interval_seconds'', PNum 5)])
           empty_registry)))
       = \<lparr>data = [(''job'', new_tree)],
          call_stats = [(''job'', \<lparr>options = [(''debug_interval_seconds'', PNum 5)],
                call_counter = [], slow_calls = []\<rparr>)],
          debug_task = [(''job'', Suc 0)], cancelled = [], next_task = Suc (Suc 0)\<rparr>"
    by (simp add: init_debug_sample empty_registry_def)
  have p2: "cancelled (snd (pop cpython ''job''
        \<lparr>data = [(''job'', new_tree)],
          call_stats = [(''job'', \<lparr>options = [(''debug_interval_seconds'', PNum 5)],
                call_counter = [], slow_calls = []\<rparr>)],
          debug_task = [(''job'', Suc 0)], cancelled = [], next_task = Suc (Suc 0)\<rparr>)) = [1]"
    by (simp add: pop_def e Let_def)
  show ?thesis unfolding r1 i2 p1 p2 by simp
qed

lemma upper_debug: "upper ''debug_interval_seconds'' = ''DEBUG_INTERVAL_SECONDS''"
  by code_simp

lemma cpython_class_dict_keys:
  "class_dict_keys (cpython_with env loop) =
     [''__module__'', ''__dict__'', ''__weakref__'', ''__doc__'',
      ''debug_interval_seconds'', ''slow_calls_duration_threshold'',
      ''slow_subtasks_duration_threshold'', ''__init__'']"
  by (simp add: class_dict_keys_def cpython_with_def)

lemma options_singletons:
  "ProfilingOptions P PTrue = Inr []" "ProfilingOptions P PFalse = Inr []"
  "ProfilingOptions P (PDict []) = Inr []"
  by (simp_all add: ProfilingOptions_def)

lemma options_invalid_key:
  assumes "\<exists>k \<in> set (map fst kv). k \<notin> set (class_dict_keys P)"
  shows "ProfilingOptions P (PDict kv) = Inl (ValueError ''Invalid profiling options'')"
proof -
  from assms have "filter (\<lambda>k. k \<notin> set (class_dict_keys P)) (map fst kv) \<noteq> []"
    by (simp add: filter_empty_conv)
  then show ?thesis by (simp add: ProfilingOptions_def Let_def)
qed

lemma options_not_mapping:
  assumes "\<forall>kv. v \<noteq> PDict kv"
  shows "ProfilingOptions P v =
     (case contains P [PTrue, PFalse, PNone] v of
        Inl e \<Rightarrow> Inl e
      | Inr True \<Rightarrow> Inr []
      | Inr False \<Rightarrow> Inl (ValueError ''Invalid profiling options''))"
  using assms by (cases v) (simp_all add: ProfilingOptions_def)

lemma init_options_raise: "ProfilingOptions P v = Inl e \<Longrightarrow> init P task v reg = (Some e, reg)"
  by (simp add: init_def)

lemma init_interval_raise:
  "ProfilingOptions P v = Inr opts \<Longrightarrow> debug_interval_seconds P opts = Inl e \<Longrightarrow>
   init P task v reg = (Some e, reg)"
  by (simp add: init_def)

lemma init_no_interval:
  "ProfilingOptions P v = Inr opts \<Longrightarrow> debug_interval_seconds P opts = Inr None \<Longrightarrow>
   init P task v reg
   = (None, reg\<lparr>data := AList.update task new_tree (data reg),
               call_stats := AList.update task
                 \<lparr>options = opts, call_counter = [], slow_calls = []\<rparr> (call_stats reg)\<rparr>)"
  by (simp add: init_def Let_def)

lemma init_interval:
  "ProfilingOptions P v = Inr opts \<Longrightarrow> debug_interval_seconds P opts = Inr (Some i) \<Longrightarrow>
   init P task v reg
   = (if running_loop P
      then (None, reg\<lparr>data := AList.update task new_tree (data reg),
               call_stats := AList.update task
                 \<lparr>options = opts, call_counter = [], slow_calls = []\<rparr> (call_stats reg),
               debug_task := AList.update task (next_task reg) (debug_task reg),
               next_task := Suc (next_task reg)\<rparr>)
      else (Some (RuntimeError ''no running event loop''),
            reg\<lparr>data := AList.update task new_tree (data reg),
               call_stats := AList.update task
                 \<lparr>options = opts, call_counter = [], slow_calls = []\<rparr> (call_stats reg)\<rparr>))"
  by (simp add: init_def Let_def)

lemma init_raise_cases:
  assumes "fst (init P task v reg) = Some e"
  shows "snd (init P task v reg) = reg
         \<or> (\<not> running_loop P \<and> e = RuntimeError ''no running event loop'')"
proof (cases "ProfilingOptions P v")
  case (Inl a)
  then show ?thesis by (simp add: init_options_raise)
next
  case (Inr opts)
  show ?thesis
  proof (cases "debug_interval_seconds P opts")
    case (Inl a)
    with Inr show ?thesis by (simp add: init_interval_raise)
  next
    case r: (Inr interval)
    show ?thesis
    proof (cases interval)
      case None
      with Inr r assms show ?thesis by (simp add: init_no_interval)
    next
      case (Some i)
      with Inr r assms show ?thesis by (simp add: init_interval split: if_splits)
    qed
  qed
qed

text \<open>
  C10 (as amended). \<open>init\<close> with \<open>True\<close>, \<open>False\<close> or \<open>None\<close> behaves exactly as with
  an empty mapping. With an empty mapping it registers the task and raises nothing when the
  debug interval (environment override or default) converts to a float and is absent or an
  event loop is running; when the interval does not convert, the error of the conversion
  propagates and the registry is unchanged. A mapping with a key outside the namespace of
  the options class, and a value that is no mapping and equals none of \<open>True\<close>,
  \<open>False\<close>, \<open>None\<close>, make it raise \<open>ValueError\<close> with the registry unchanged.
  Whenever \<open>init\<close> raises \<open>ValueError\<close>, and whenever it raises with an event loop
  running, the registry is unchanged; with a debug interval set and no event loop running,
  \<open>init\<close> raises \<open>RuntimeError\<close> after the \<open>data\<close> and \<open>call_stats\<close> entries of the
  task have been created.
\<close>

theorem init_option_validation:
  "init P task PTrue reg = init P task (PDict []) reg
   \<and> init P task PFalse reg = init P task (PDict []) reg
   \<and> init P task PNone reg = init P task (PDict []) reg
   \<and> (debug_interval_seconds P [] = Inr interval \<and> (interval = None \<or> running_loop P)
        \<longrightarrow> fst (init P task (PDict []) reg) = None
            \<and> map_of (data (snd (init P task (PDict []) reg))) task = Some new_tree
            \<and> map_of (call_stats (snd (init P task (PDict []) reg))) task
                = Some \<lparr>options = [], call_counter = [], slow_calls = []\<rparr>)
   \<and> (debug_interval_seconds P [] = Inl e
        \<longrightarrow> init P task (PDict []) reg = (Some e, reg))
   \<and> ((\<exists>k \<in> set (map fst kv). k \<notin> set (class_dict_keys P))
        \<longrightarrow> init P task (PDict kv) reg = (Some (ValueError ''Invalid profiling options''), reg))
   \<and> ((\<forall>kv. v \<noteq> PDict kv) \<and> contains P [PTrue, PFalse, PNone] v = Inr False
        \<longrightarrow> init P task v reg = (Some (ValueError ''Invalid profiling options''), reg))
   \<and> (fst (init P task v reg) = Some (ValueError m) \<longrightarrow> snd (init P task v reg) = reg)
   \<and> (running_loop P \<and> fst (init P task v reg) \<noteq> None \<longrightarrow> snd (init P task v reg) = reg)
   \<and> (\<not> running_loop P \<and> ProfilingOptions P v = Inr opts
         \<and> debug_interval_seconds P opts = Inr (Some i)
        \<longrightarrow> init P task v reg
            = (Some (RuntimeError ''no running event loop''),
               reg\<lparr>data := AList.update task new_tree (data reg),
                   call_stats := AList.update task
                     \<lparr>options = opts, call_counter = [], slow_calls = []\<rparr> (call_stats reg)\<rparr>))"
proof (intro conjI impI)
  show "init P task PTrue reg = init P task (PDict []) reg"
    by (simp add: init_def options_singletons)
  show "init P task PFalse reg = init P task (PDict []) reg"
    by (simp add: init_def options_singletons)
  show "init P task PNone reg = init P task (PDict []) reg"
    by (simp add: init_def options_singletons options_none)
  show "init P task (PDict []) reg = (Some e, reg)" if "debug_interval_seconds P [] = Inl e"
    using that by (simp add: init_interval_raise options_singletons)
  show "init P task (PDict kv) reg = (Some (ValueError ''Invalid profiling options''), reg)"
    if "\<exists>k \<in> set (map fst kv). k \<notin> set (class_dict_keys P)"
    using that by (simp add: init_options_raise options_invalid_key)
  show "init P task v reg = (Some (ValueError ''Invalid profiling options''), reg)"
    if "(\<forall>kv. v \<noteq> PDict kv) \<and> contains P [PTrue, PFalse, PNone] v = Inr False"
  proof -
    from that have "ProfilingOptions P v = Inl (ValueError ''Invalid profiling options'')"
      by (simp add: options_not_mapping)
    then show ?thesis by (rule init_options_raise)
  qed
  show "snd (init P task v reg) = reg" if "fst (init P task v reg) = Some (ValueError m)"
    using init_raise_cases [OF that] by simp
  show "snd (init P task v reg) = reg"
    if "running_loop P \<and> fst (init P task v reg) \<noteq> None"
  proof -
    from that obtain x where "fst (init P task v reg) = Some x" by (cases "fst (init P task v reg)") simp_all
    from init_raise_cases [OF this] that show ?thesis by simp
  qed
  show "init P task v reg
            = (Some (RuntimeError ''no running event loop''),
               reg\<lparr>data := AList.update task new_tree (data reg),
                   call_stats := AList.update task
                     \<lparr>options = opts, call_counter = [], slow_calls = []\<rparr> (call_stats reg)\<rparr>)"
    if "\<not> running_loop P \<and> ProfilingOptions P v = Inr opts
         \<and> debug_interval_seconds P opts = Inr (Some i)"
    using that by (simp add: init_interval)
next
  assume a: "debug_interval_seconds P [] = Inr interval \<and> (interval = None \<or> running_loop P)"
  have o: "ProfilingOptions P (PDict []) = Inr []" by (simp add: options_singletons)
  show "fst (init P task (PDict []) reg) = None"
    using a by (cases interval) (simp_all add: init_no_interval [OF o] init_interval [OF o])
  show "map_of (data (snd (init P task (PDict []) reg))) task = Some new_tree"
    using a by (cases interval)
      (simp_all add: init_no_interval [OF o] init_interval [OF o] update_conv')
  show "map_of (call_stats (snd (init P task (PDict []) reg))) task
                = Some \<lparr>options = [], call_counter = [], slow_calls = []\<rparr>"
    using a by (cases interval)
      (simp_all add: init_no_interval [OF o] init_interval [OF o] update_conv')
qed

lemma float_soon: "float_literal ''soon'' = Inl (ValueError ''could not convert string to float'')"
  by (simp add: float_literal_def signed_def unsigned_decimal_def)

lemma interval_tuple:
  "debug_interval_seconds cpython [(''debug_interval_seconds'', PTuple [])] = Inl TypeError"
  by (simp add: debug_interval_seconds_def descriptor_get_def cpython_def cpython_with_def)

lemma interval_soon:
  "debug_interval_seconds cpython [(''debug_interval_seconds'', PStr ''soon'')]
   = Inl (ValueError ''could not convert string to float'')"
  by (simp add: debug_interval_seconds_def descriptor_get_def cpython_def cpython_with_def
      float_soon)

lemma interval_five:
  "debug_interval_seconds (cpython_with env loop) [(''debug_interval_seconds'', PNum 5)]
   = Inr (Some 5)"
  by (simp add: debug_interval_seconds_def descriptor_get_def cpython_with_def)

lemma interval_environ_soon:
  "debug_interval_seconds
     (cpython_with (\<lambda>name. if name = ''MARS_PROFILING_DEBUG_INTERVAL_SECONDS''
                            then Some ''soon'' else None) True) []
   = Inl (ValueError ''could not convert string to float'')"
  by (simp add: debug_interval_seconds_def descriptor_get_def cpython_with_def upper_debug
      float_soon)

lemma options_interval:
  "ProfilingOptions (cpython_with env loop) (PDict [(''debug_interval_seconds'', x)])
   = Inr [(''debug_interval_seconds'', x)]"
  by (simp add: ProfilingOptions_def cpython_class_dict_keys)

lemma contains_yes: "contains cpython [PTrue, PFalse, PNone] (PStr ''yes'') = Inr False"
  by simp

theorem init_option_validation_witness:
  "init cpython ''job'' PTrue empty_registry = init cpython ''job'' (PDict []) empty_registry
   \<and> fst (init cpython ''job'' (PDict []) empty_registry) = None
   \<and> map_of (data (snd (init cpython ''job'' (PDict []) empty_registry))) ''job'' = Some new_tree
   \<and> init cpython ''job'' (PDict [(''interval'', PNum 5)]) empty_registry
       = (Some (ValueError ''Invalid profiling options''), empty_registry)
   \<and> init cpython ''job'' (PStr ''yes'') empty_registry
       = (Some (ValueError ''Invalid profiling options''), empty_registry)
   \<and> snd (init cpython ''job'' (PDict [(''debug_interval_seconds'', PTuple [])]) empty_registry)
       = empty_registry
   \<and> snd (init cpython ''job'' (PDict [(''debug_interval_seconds'', PStr ''soon'')])
            empty_registry)
       = empty_registry
   \<and> init (cpython_with (\<lambda>name. None) False) ''job''
         (PDict [(''debug_interval_seconds'', PNum 5)]) empty_registry
       = (Some (RuntimeError ''no running event loop''),
          empty_registry
            \<lparr>data := [(''job'', new_tree)],
             call_stats := [(''job'', \<lparr>options = [(''debug_interval_seconds'', PNum 5)],
                                       call_counter = [], slow_calls = []\<rparr>)]\<rparr>)
   \<and> init (cpython_with (\<lambda>name. if name = ''MARS_PROFILING_DEBUG_INTERVAL_SECONDS''
                                  then Some ''soon'' else None) True)
         ''job'' (PDict []) empty_registry
       = (Some (ValueError ''could not convert string to float''), empty_registry)"
proof -
  have k: "\<exists>k \<in> set (map fst [(''interval'', PNum 5)]). k \<notin> set (class_dict_keys cpython)"
    by (simp add: cpython_def cpython_class_dict_keys)
  have n: "(\<forall>kv. PStr ''yes'' \<noteq> PDict kv)
           \<and> contains cpython [PTrue, PFalse, PNone] (PStr ''yes'') = Inr False"
    by simp
  have d: "debug_interval_seconds cpython [] = Inr None \<and> (None = None \<or> running_loop cpython)"
    by (simp add: debug_interval_default)
  note t1 = init_option_validation [where P = cpython and task = "''job''"
      and reg = empty_registry and interval = None and kv = "[(''interval'', PNum 5)]"
      and v = "PStr ''yes''"]
  have a1: "init cpython ''job'' PTrue empty_registry
            = init cpython ''job'' (PDict []) empty_registry"
    by (rule t1 [THEN conjunct1])
  from t1 d have a2: "fst (init cpython ''job'' (PDict []) empty_registry) = None"
    and a3: "map_of (data (snd (init cpython ''job'' (PDict []) empty_registry))) ''job''
             = Some new_tree"
    by simp_all
  from t1 k have a4: "init cpython ''job'' (PDict [(''interval'', PNum 5)]) empty_registry
       = (Some (ValueError ''Invalid profiling options''), empty_registry)"
    by simp
  from t1 n have a5: "init cpython ''job'' (PStr ''yes'') empty_registry
       = (Some (ValueError ''Invalid profiling options''), empty_registry)"
    by simp
  have l: "running_loop cpython" by (simp add: cpython_def cpython_with_def)
  have f6: "fst (init cpython ''job'' (PDict [(''debug_interval_seconds'', PTuple [])])
                  empty_registry) = Some TypeError"
    by (simp add: init_interval_raise [OF options_interval [of "\<lambda>name. None" True, folded cpython_def]
          interval_tuple])
  from init_option_validation [where P = cpython and task = "''job''" and reg = empty_registry
      and v = "PDict [(''debug_interval_seconds'', PTuple [])]"] l f6
  have a6: "snd (init cpython ''job'' (PDict [(''debug_interval_seconds'', PTuple [])])
                  empty_registry) = empty_registry"
    by simp
  have f7: "fst (init cpython ''job'' (PDict [(''debug_interval_seconds'', PStr ''soon'')])
                  empty_registry) = Some (ValueError ''could not convert string to float'')"
    by (simp add: init_interval_raise [OF options_interval [of "\<lambda>name. None" True, folded cpython_def]
          interval_soon])
  from init_option_validation [where P = cpython and task = "''job''" and reg = empty_registry
      and v = "PDict [(''debug_interval_seconds'', PStr ''soon'')]"
      and m = "''could not convert string to float''"] f7
  have a7: "snd (init cpython ''job'' (PDict [(''debug_interval_seconds'', PStr ''soon'')])
                  empty_registry) = empty_registry"
    by simp
  have h8: "\<not> running_loop (cpython_with (\<lambda>name. None) False)
            \<and> ProfilingOptions (cpython_with (\<lambda>name. None) False)
                 (PDict [(''debug_interval_seconds'', PNum 5)])
               = Inr [(''debug_interval_seconds'', PNum 5)]
            \<and> debug_interval_seconds (cpython_with (\<lambda>name. None) False)
                 [(''debug_interval_seconds'', PNum 5)] = Inr (Some 5)"
    by (simp add: options_interval interval_five) (simp add: cpython_with_def)
  from init_option_validation [where P = "cpython_with (\<lambda>name. None) False"
      and task = "''job''" and reg = empty_registry
      and v = "PDict [(''debug_interval_seconds'', PNum 5)]"
      and opts = "[(''debug_interval_seconds'', PNum 5)]" and i = 5] h8
  have a8: "init (cpython_with (\<lambda>name. None) False) ''job''
         (PDict [(''debug_interval_seconds'', PNum 5)]) empty_registry
       = (Some (RuntimeError ''no running event loop''),
          empty_registry
            \<lparr>data := [(''job'', new_tree)],
             call_stats := [(''job'', \<lparr>options = [(''debug_interval_seconds'', PNum 5)],
                                       call_counter = [], slow_calls = []\<rparr>)]\<rparr>)"
    by (simp add: empty_registry_def)
  from init_option_validation [where
      P = "cpython_with (\<lambda>name. if name = ''MARS_PROFILING_DEBUG_INTERVAL_SECONDS''
                                  then Some ''soon'' else None) True"
      and task = "''job''" and reg = empty_registry
      and e = "ValueError ''could not convert string to float''"] interval_environ_soon
  have a9: "init (cpython_with (\<lambda>name. if name = ''MARS_PROFILING_DEBUG_INTERVAL_SECONDS''
                                  then Some ''soon'' else None) True)
         ''job'' (PDict []) empty_registry
       = (Some (ValueError ''could not convert string to float''), empty_registry)"
    by simp
  show ?thesis
    by (rule conjI [OF a1 conjI [OF a2 conjI [OF a3 conjI [OF a4 conjI [OF a5
          conjI [OF a6 conjI [OF a7 conjI [OF a8 a9]]]]]]]])
qed

text \<open>
  C10 as stated fails: the key \<open>__init__\<close> is no declared option name, yet it belongs to
  the class namespace the keys are checked against, so the mapping is accepted and the task
  registered; with an environment override that \<open>float\<close> refuses, \<open>init\<close> with
  \<open>None\<close> raises; and with an override of 5 seconds and no running event loop, \<open>init\<close>
  with \<open>None\<close> raises \<open>RuntimeError\<close> after the entries have been created.
\<close>

theorem init_option_validation_counterexample:
  "''__init__'' \<notin> {''debug_interval_seconds'', ''slow_calls_duration_threshold'',
                    ''slow_subtasks_duration_threshold''}
   \<and> init cpython ''job'' (PDict [(''__init__'', PNum 1)]) empty_registry
     = (None, empty_registry
          \<lparr>data := [(''job'', new_tree)],
           call_stats := [(''job'', \<lparr>options = [(''__init__'', PNum 1)], call_counter = [],
                                     slow_calls = []\<rparr>)]\<rparr>)
   \<and> init (cpython_with (\<lambda>name. if name = ''MARS_PROFILING_DEBUG_INTERVAL_SECONDS''
                                  then Some ''soon'' else None) True)
       ''job'' PNone empty_registry
     = (Some (ValueError ''could not convert string to float''), empty_registry)
   \<and> init (cpython_with (\<lambda>name. if name = ''MARS_PROFILING_DEBUG_INTERVAL_SECONDS''
                                  then Some ''5'' else None) False)
       ''job'' PNone empty_registry
     = (Some (RuntimeError ''no running event loop''),
        empty_registry
          \<lparr>data := [(''job'', new_tree)],
           call_stats := [(''job'', \<lparr>options = [], call_counter = [], slow_calls = []\<rparr>)]\<rparr>)"
proof (intro conjI)
  show "''__init__'' \<notin> {''debug_interval_seconds'', ''slow_calls_duration_threshold'',
                    ''slow_subtasks_duration_threshold''}"
    by simp
  have o: "ProfilingOptions cpython (PDict [(''__init__'', PNum 1)]) = Inr [(''__init__'', PNum 1)]"
    by (simp add: ProfilingOptions_def cpython_def cpython_class_dict_keys)
  have i: "debug_interval_seconds cpython [(''__init__'', PNum 1)] = Inr None"
    by (simp add: debug_interval_seconds_def descriptor_get_def cpython_def cpython_with_def)
  show "init cpython ''job'' (PDict [(''__init__'', PNum 1)]) empty_registry
     = (None, empty_registry
          \<lparr>data := [(''job'', new_tree)],
           call_stats := [(''job'', \<lparr>options = [(''__init__'', PNum 1)], call_counter = [],
                                     slow_calls = []\<rparr>)]\<rparr>)"
    by (simp add: init_no_interval [OF o i] empty_registry_def)
  show "init (cpython_with (\<lambda>name. if name = ''MARS_PROFILING_DEBUG_INTERVAL_SECONDS''
                                  then Some ''soon'' else None) True)
       ''job'' PNone empty_registry
     = (Some (ValueError ''could not convert string to float''), empty_registry)"
    by (rule init_interval_raise [OF options_none interval_environ_soon])
  have f: "debug_interval_seconds
     (cpython_with (\<lambda>name. if name = ''MARS_PROFILING_DEBUG_INTERVAL_SECONDS''
                            then Some ''5'' else None) False) [] = Inr (Some 5)"
    by (simp add: debug_interval_seconds_def descriptor_get_def cpython_with_def upper_debug
        float_literal_def signed_def unsigned_decimal_def)
  show "init (cpython_with (\<lambda>name. if name = ''MARS_PROFILING_DEBUG_INTERVAL_SECONDS''
                                  then Some ''5'' else None) False)
       ''job'' PNone empty_registry
     = (Some (RuntimeError ''no running event loop''),
        empty_registry
          \<lparr>data := [(''job'', new_tree)],
           call_stats := [(''job'', \<lparr>options = [], call_counter = [], slow_calls = []\<rparr>)]\<rparr>)"
    by (simp add: init_interval [OF options_none f] empty_registry_def)
       (simp add: cpython_with_def)
qed

subsection \<open>The percentile collector\<close>

lemma insert_sorted_mset: "mset (insert_sorted v xs) = add_mset v (mset xs)"
  by (induction xs) auto

lemma insert_sorted_set: "set (insert_sorted v xs) = insert v (set xs)"
  by (induction xs) auto

lemma insert_sorted_sorted: "sorted xs \<Longrightarrow> sorted (insert_sorted v xs)"
  by (induction xs) (auto simp: insert_sorted_set)

lemma insert_sorted_length: "length (insert_sorted v xs) = Suc (length xs)"
  by (induction xs) auto

lemma insert_sorted_sort: "insert_sorted v (sort ys) = sort (ys @ [v])"
  by (rule properties_for_sort [symmetric])
     (simp_all add: insert_sorted_mset insert_sorted_sorted)

lemma take_insert_below:
  "sorted s \<Longrightarrow> 0 < k \<Longrightarrow> k \<le> length s \<Longrightarrow> v < s ! (k - 1) \<Longrightarrow>
   take k (insert_sorted v s) = insert_sorted v (take (k - 1) s)"
proof (induction s arbitrary: k)
  case Nil
  then show ?case by simp
next
  case (Cons x s)
  show ?case
  proof (cases "v < x")
    case True
    with Cons.prems show ?thesis by (cases k; cases "k - 1") auto
  next
    case False
    with Cons.prems have k2: "1 < k" by (cases "k = 1") auto
    then have "take (k - 1) (insert_sorted v s) = insert_sorted v (take (k - 1 - 1) s)"
      using Cons.prems by (intro Cons.IH) (auto simp: nth_Cons')
    with False k2 show ?thesis
      by (cases k; cases "k - 1") auto
  qed
qed

lemma take_insert_above:
  "sorted s \<Longrightarrow> k \<le> length s \<Longrightarrow> k = 0 \<or> \<not> v < s ! (k - 1) \<Longrightarrow>
   take k (insert_sorted v s) = take k s"
proof (induction s arbitrary: k)
  case Nil
  then show ?case by simp
next
  case (Cons x s)
  show ?case
  proof (cases k)
    case 0
    then show ?thesis by simp
  next
    case (Suc j)
    with Cons.prems have nv: "\<not> v < (x # s) ! j" by simp
    have "x \<le> (x # s) ! j" using Cons.prems(1,2) Suc
      by (cases j) (auto simp: sorted_wrt_nth_less)
    with nv have nx: "\<not> v < x" by auto
    have "take j (insert_sorted v s) = take j s"
    proof (rule Cons.IH)
      show "sorted s" using Cons.prems(1) by simp
      show "j \<le> length s" using Cons.prems(2) Suc by simp
      show "j = 0 \<or> \<not> v < s ! (j - 1)" using nv by (cases j) auto
    qed
    with nx Suc show ?thesis by simp
  qed
qed

lemma last_take:
  assumes "0 < K" and "K \<le> length s"
  shows "take K s \<noteq> [] \<and> last (take K s) = s ! (K - 1)"
proof -
  have len: "length (take K s) = K" using assms by simp
  then have ne: "take K s \<noteq> []" using assms(1) by auto
  then have "last (take K s) = take K s ! (length (take K s) - 1)" by (rule last_conv_nth)
  also have "\<dots> = take K s ! (K - 1)" by (simp only: len)
  also have "\<dots> = s ! (K - 1)" using assms(1) by (intro nth_take) simp
  finally show ?thesis using ne by simp
qed

lemma held_step:
  assumes "sorted s" and "h = take K s"
  shows "(if length h < K then insert_sorted v h
          else if h \<noteq> [] \<and> v < last h then insert_sorted v (butlast h)
          else h) = take K (insert_sorted v s)"
proof (cases "length h < K")
  case True
  with assms(2) have "length s < K" by auto
  with assms(2) have "h = s" by simp
  with True show ?thesis by (simp add: insert_sorted_length)
next
  case False
  with assms(2) have len: "K \<le> length s" "length h = K" by auto
  show ?thesis
  proof (cases "K = 0")
    case True
    with assms(2) False show ?thesis by simp
  next
    case K: False
    with len assms(2) have ne: "h \<noteq> []" by auto
    have l: "last h = s ! (K - 1)"
      using last_take [of K s] len K assms(2) by simp
    have b: "butlast h = take (K - 1) s"
      using len K assms(2) by (simp add: butlast_take)
    show ?thesis
    proof (cases "v < s ! (K - 1)")
      case True
      with take_insert_below [OF assms(1) _ len(1) True] K False ne l b show ?thesis by simp
    next
      case nv: False
      with take_insert_above [OF assms(1) len(1), of v] False ne l assms(2) show ?thesis by simp
    qed
  qed
qed

lemma record_all_fired: "fired c \<Longrightarrow> record_all vs c = Inr c"
  by (induction vs) (simp_all add: record_data_def)

lemma capacity_bounds:
  assumes "0 \<le> p" "p < 100" "0 < w"
  shows "1 \<le> capacity p w \<and> capacity p w \<le> w"
proof -
  have pos: "0 < w * (100 - p)" using assms by simp
  have "w * (100 - p) \<le> w * 100" using assms by simp
  then have "(of_int (w * (100 - p)) :: rat) \<le> of_int (w * 100)"
    by (simp only: of_int_le_iff)
  then have up: "of_int (w * (100 - p)) / (100 :: rat) \<le> of_int w" by simp
  have "0 < (of_int (w * (100 - p)) :: rat)" using pos by (simp only: of_int_0_less_iff)
  then have lo: "0 < of_int (w * (100 - p)) / (100 :: rat)" by simp
  from lo have "0 < capacity p w" unfolding capacity_def by (simp only: less_ceiling_iff of_int_0)
  moreover from up have "capacity p w \<le> w" unfolding capacity_def by (simp only: ceiling_le_iff)
  ultimately show ?thesis by simp
qed

lemma record_all_run:
  assumes "\<not> fired c"
    and "samples_seen c = int (length ys)"
    and "held c = take (nat (capacity (percentile_type c) (window c))) (sort ys)"
    and "1 \<le> capacity (percentile_type c) (window c)"
    and "capacity (percentile_type c) (window c) \<le> window c"
    and "length ys < nat (window c)"
    and "nat (window c) \<le> length ys + length vs"
  shows "\<exists>c'. record_all vs c = Inr c' \<and> fired c'
           \<and> reported c' = reported c
               @ [sort (take (nat (window c)) (ys @ vs))
                    ! (nat (capacity (percentile_type c) (window c)) - 1)]"
  using assms
proof (induction vs arbitrary: c ys)
  case Nil
  then show ?case by simp
next
  case (Cons v vs)
  let ?k = "capacity (percentile_type c) (window c)"
  let ?K = "nat ?k"
  let ?h = "take ?K (sort (ys @ [v]))"
  let ?c' = "c\<lparr>samples_seen := samples_seen c + 1, held := ?h\<rparr>"
  have lt: "\<And>n. (int n < ?k) = (n < ?K)" by auto
  have h: "(if length (held c) < ?K then insert_sorted v (held c)
            else if held c \<noteq> [] \<and> v < last (held c) then insert_sorted v (butlast (held c))
            else held c) = ?h"
    using held_step [OF sorted_sort Cons.prems(3), of v] by (simp add: insert_sorted_sort)
  show ?case
  proof (cases "samples_seen c + 1 = window c")
    case True
    then have w: "nat (window c) = Suc (length ys)" using Cons.prems(2) by simp
    have K: "0 < ?K" "?K \<le> Suc (length ys)" using Cons.prems(4,5) w by auto
    have "?K \<le> length (sort (ys @ [v]))" using K by simp
    from last_take [OF K(1) this]
    have ne: "?h \<noteq> []" and la: "last ?h = sort (ys @ [v]) ! (?K - 1)" by auto
    have r: "record_data v c = Inr (?c'\<lparr>fired := True, reported := reported c @ [last ?h]\<rparr>)"
      using Cons.prems(1) True ne h by (simp add: record_data_def Let_def lt)
    have "record_all (v # vs) c = Inr (?c'\<lparr>fired := True, reported := reported c @ [last ?h]\<rparr>)"
      by (simp add: r record_all_fired)
    then show ?thesis using la w by simp
  next
    case False
    have r: "record_data v c = Inr ?c'"
      using Cons.prems(1) False h by (simp add: record_data_def Let_def lt)
    from False Cons.prems(2,6) have less: "length (ys @ [v]) < nat (window ?c')" by auto
    have "\<exists>c''. record_all vs ?c' = Inr c'' \<and> fired c''
           \<and> reported c'' = reported ?c'
               @ [sort (take (nat (window ?c')) ((ys @ [v]) @ vs))
                    ! (nat (capacity (percentile_type ?c') (window ?c')) - 1)]"
    proof (rule Cons.IH)
      show "\<not> fired ?c'" using Cons.prems(1) by simp
      show "samples_seen ?c' = int (length (ys @ [v]))" using Cons.prems(2) by simp
      show "held ?c' = take (nat (capacity (percentile_type ?c') (window ?c'))) (sort (ys @ [v]))"
        by simp
      show "1 \<le> capacity (percentile_type ?c') (window ?c')" using Cons.prems(4) by simp
      show "capacity (percentile_type ?c') (window ?c') \<le> window ?c'" using Cons.prems(5) by simp
      show "length (ys @ [v]) < nat (window ?c')" using less .
      show "nat (window ?c') \<le> length (ys @ [v]) + length vs" using Cons.prems(7) by simp
    qed
    then show ?thesis by (simp add: r)
  qed
qed

lemma record_all_before:
  assumes "\<not> fired c" and "samples_seen c = int m" and "reported c = []"
    and "m + length vs < nat (window c)"
  shows "\<exists>c'. record_all vs c = Inr c' \<and> \<not> fired c' \<and> reported c' = []"
  using assms
proof (induction vs arbitrary: c m)
  case Nil
  then show ?case by simp
next
  case (Cons v vs)
  from Cons.prems(2,4) have ne: "samples_seen c + 1 \<noteq> window c" by auto
  then obtain c1 where r: "record_data v c = Inr c1" and c1: "\<not> fired c1"
    "samples_seen c1 = int (Suc m)" "reported c1 = []" "window c1 = window c"
    using Cons.prems(1,2,3) by (simp add: record_data_def Let_def)
  have "\<exists>c'. record_all vs c1 = Inr c' \<and> \<not> fired c' \<and> reported c' = []"
    using c1 Cons.prems(4) by (intro Cons.IH [of c1 "Suc m"]) auto
  then show ?case by (simp add: r)
qed

text \<open>
  C6 (as amended). For a percentile \<open>0 \<le> p < 100\<close> and a window \<open>w > 0\<close>, so that the
  capacity \<open>k\<close> lies between 1 and \<open>w\<close>, and at least \<open>w\<close> recorded samples: the callback
  is invoked exactly once, with the \<open>k\<close>-th smallest of the first \<open>w\<close> samples; it has not
  been invoked after fewer than \<open>w\<close> calls; and every \<open>record_data\<close> call after the
  collector has fired changes nothing.
\<close>

theorem percentile_reports_once:
  assumes "0 \<le> p" and "p < 100" and "0 < w" and "nat w \<le> length xs"
  shows "\<exists>c0 c. Percentile_init p w = Inr c0 \<and> record_all xs c0 = Inr c \<and> fired c
           \<and> reported c = [sort (take (nat w) xs) ! (nat (capacity p w) - 1)]
           \<and> (\<forall>n < nat w. \<exists>c'. record_all (take n xs) c0 = Inr c'
                                 \<and> \<not> fired c' \<and> reported c' = [])
           \<and> (\<forall>v. record_data v c = Inr c)"
proof -
  let ?c0 = "\<lparr>percentile_type = p, window = w, held = [], samples_seen = 0,
              fired = False, reported = []\<rparr> :: 'a Percentile"
  have i: "Percentile_init p w = Inr ?c0" using assms by (simp add: Percentile_init_def)
  from capacity_bounds [OF assms(1-3)] have cb: "1 \<le> capacity p w" "capacity p w \<le> w" by auto
  have "\<exists>c'. record_all xs ?c0 = Inr c' \<and> fired c'
           \<and> reported c' = reported ?c0
               @ [sort (take (nat (window ?c0)) ([] @ xs))
                    ! (nat (capacity (percentile_type ?c0) (window ?c0)) - 1)]"
    using assms cb by (intro record_all_run) auto
  then obtain c where c: "record_all xs ?c0 = Inr c" "fired c"
      "reported c = [sort (take (nat w) xs) ! (nat (capacity p w) - 1)]" by auto
  have before: "\<exists>c'. record_all (take n xs) ?c0 = Inr c' \<and> \<not> fired c' \<and> reported c' = []"
    if "n < nat w" for n
    using that assms(4) by (intro record_all_before [of ?c0 0]) auto
  have after: "record_data v c = Inr c" for v using c(2) by (simp add: record_data_def)
  from i c before after show ?thesis by blast
qed

lemma hundred_samples:
  "0 < k \<Longrightarrow> k \<le> 100 \<Longrightarrow> sort (take (nat 100) [1..100::int]) ! (nat k - 1) = k"
proof -
  assume k: "0 < k" "k \<le> 100"
  have "sort (take (nat 100) [1..100::int]) = [1..100]" by (simp add: sorted_sort_id)
  moreover have "[1..100::int] ! (nat k - 1) = 1 + int (nat k - 1)"
    using k by (intro nth_upto) auto
  ultimately show ?thesis using k by simp
qed

theorem percentile_reports_once_witness:
  "(\<exists>c0 c. Percentile_init 90 100 = Inr c0 \<and> record_all [1..100] c0 = Inr c
       \<and> reported c = [10::int] \<and> record_data 101 c = Inr c)
   \<and> (\<exists>c0 c. Percentile_init 95 100 = Inr c0 \<and> record_all [1..100] c0 = Inr c
       \<and> reported c = [5::int] \<and> record_data 101 c = Inr c)
   \<and> (\<exists>c0 c. Percentile_init 99 100 = Inr c0 \<and> record_all [1..100] c0 = Inr c
       \<and> reported c = [1::int] \<and> record_data 101 c = Inr c)"
proof -
  have len: "nat 100 \<le> length [1..100::int]" by simp
  have c90: "capacity 90 100 = 10" and c95: "capacity 95 100 = 5" and c99: "capacity 99 100 = 1"
    by (simp_all add: capacity_def)
  have "\<exists>c0 c. Percentile_init 90 100 = Inr c0 \<and> record_all [1..100] c0 = Inr c
       \<and> reported c = [10::int] \<and> record_data 101 c = Inr c"
    using percentile_reports_once [of 90 100 "[1..100::int]", OF _ _ _ len]
      hundred_samples [of 10]
    by (simp add: c90) blast
  moreover have "\<exists>c0 c. Percentile_init 95 100 = Inr c0 \<and> record_all [1..100] c0 = Inr c
       \<and> reported c = [5::int] \<and> record_data 101 c = Inr c"
    using percentile_reports_once [of 95 100 "[1..100::int]", OF _ _ _ len]
      hundred_samples [of 5]
    by (simp add: c95) blast
  moreover have "\<exists>c0 c. Percentile_init 99 100 = Inr c0 \<and> record_all [1..100] c0 = Inr c
       \<and> reported c = [1::int] \<and> record_data 101 c = Inr c"
    using percentile_reports_once [of 99 100 "[1..100::int]", OF _ _ _ len]
      hundred_samples [of 1]
    by (simp add: c99) blast
  ultimately show ?thesis by blast
qed

text \<open>
  C6 as stated fails for non-negative parameters that leave no capacity: with window 0 the
  counter never equals the window and the callback is never invoked; with percentile 100
  nothing is held when the window is reached and there is no value to report.
\<close>

theorem percentile_zero_window_counterexample:
  "(0::int) \<le> 90 \<and> (0::int) \<le> 0
   \<and> Percentile_init 90 0
       = Inr \<lparr>percentile_type = 90, window = 0, held = [], samples_seen = 0,
              fired = False, reported = ([] :: int list)\<rparr>
   \<and> record_all [1, 2, 3 :: int]
        \<lparr>percentile_type = 90, window = 0, held = [], samples_seen = 0,
         fired = False, reported = []\<rparr>
       = Inr \<lparr>percentile_type = 90, window = 0, held = [], samples_seen = 3,
              fired = False, reported = []\<rparr>
   \<and> (0::int) \<le> 100 \<and> (0::int) \<le> 1
   \<and> Percentile_init 100 1
       = Inr \<lparr>percentile_type = 100, window = 1, held = [], samples_seen = 0,
              fired = False, reported = ([] :: int list)\<rparr>
   \<and> record_all [5 :: int]
        \<lparr>percentile_type = 100, window = 1, held = [], samples_seen = 0,
         fired = False, reported = []\<rparr>
       = Inl (ValueError ''no value held'')"
  by (simp add: Percentile_init_def record_data_def capacity_def)

end
